theory Spec2Isabelle
  imports Main "HOL-Library.Sublist" "HOL-Library.AList" "HOL-Library.Char_ord"
    "HOL-Library.List_Lexorder"
begin

section \<open>Python values, exceptions and string operations\<close>

text \<open>
  The two modules under verification are \<^verbatim>\<open>saml2/pack.py\<close> (the binding codecs) and
  \<^verbatim>\<open>saml2/httpbase.py\<close> (cookie handling and transport).  Both are Python 2 code.
  Exceptions are values of type \<open>error\<close>; a function that may raise returns
  \<open>error + 'a\<close> with \<open>Inl\<close> for the exception.
\<close>

datatype error =
    ValueError
  | KeyError
  | TypeError
  | AttributeError
  | AssertionError
  | PyException string          \<comment> \<open>\<^verbatim>\<open>raise Exception(msg)\<close>\<close>
  | RequestsConnectionError     \<comment> \<open>\<^verbatim>\<open>requests.ConnectionError\<close>\<close>
  | ConnectionError             \<comment> \<open>the class \<^verbatim>\<open>ConnectionError\<close> of httpbase.py\<close>
  | OtherError string           \<comment> \<open>any other exception of a collaborator\<close>

definition ebind :: "error + 'a \<Rightarrow> ('a \<Rightarrow> error + 'b) \<Rightarrow> error + 'b" where
  "ebind r f = (case r of Inl e \<Rightarrow> Inl e | Inr v \<Rightarrow> f v)"

text \<open>Dynamically typed attribute values, as far as the code distinguishes them.\<close>

datatype pyval = PyNone | PyBool bool | PyInt int | PyStr string

fun truthy :: "pyval \<Rightarrow> bool" where
  "truthy PyNone = False"
| "truthy (PyBool b) = b"
| "truthy (PyInt i) = (i \<noteq> 0)"
| "truthy (PyStr s) = (s \<noteq> [])"

text \<open>\<^verbatim>\<open>s.startswith(p)\<close> and \<^verbatim>\<open>s.endswith(p)\<close>.\<close>

definition startswith :: "string \<Rightarrow> string \<Rightarrow> bool" where
  "startswith s p = (take (length p) s = p)"

definition endswith :: "string \<Rightarrow> string \<Rightarrow> bool" where
  "endswith s p = (length p \<le> length s \<and> drop (length s - length p) s = p)"

text \<open>
  \<^verbatim>\<open>s[a:b]\<close>: a negative index counts from the end, and both indices are clipped
  to the string.
\<close>

definition clip :: "nat \<Rightarrow> int \<Rightarrow> nat" where
  "clip n i = (if i < 0 then nat (int n + i) else min n (nat i))"

definition slice :: "string \<Rightarrow> int \<Rightarrow> int \<Rightarrow> string" where
  "slice s a b = drop (clip (length s) a) (take (clip (length s) b) s)"

text \<open>\<^verbatim>\<open>s.find(sub)\<close>: the lowest index at which \<open>sub\<close> occurs, or \<open>-1\<close>.\<close>

fun find_from :: "nat \<Rightarrow> string \<Rightarrow> string \<Rightarrow> int" where
  "find_from n sub [] = (if sub = [] then int n else - 1)"
| "find_from n sub (c # cs) =
     (if startswith (c # cs) sub then int n else find_from (Suc n) sub cs)"

definition find :: "string \<Rightarrow> string \<Rightarrow> int" where
  "find s sub = find_from 0 sub s"

text \<open>
  \<^verbatim>\<open>s.rfind(sub, a, b)\<close>: the highest index at which \<open>sub\<close> occurs inside
  \<^verbatim>\<open>s[a:b]\<close>, or \<open>-1\<close>.  The scan keeps the last hit seen.
\<close>

fun rfind_from :: "nat \<Rightarrow> int \<Rightarrow> string \<Rightarrow> string \<Rightarrow> int" where
  "rfind_from n hit sub [] = (if sub = [] then int n else hit)"
| "rfind_from n hit sub (c # cs) =
     rfind_from (Suc n) (if startswith (c # cs) sub then int n else hit) sub cs"

definition rfind :: "string \<Rightarrow> string \<Rightarrow> int \<Rightarrow> int \<Rightarrow> int" where
  "rfind s sub a b =
     (let lo = clip (length s) a; hi = clip (length s) b
      in if hi < lo then - 1 else rfind_from lo (- 1) sub (drop lo (take hi s)))"

text \<open>
  \<^verbatim>\<open>s.replace(old, new)\<close>: every occurrence of \<open>old\<close>, scanning from the left
  and never looking again at replaced text.  With an empty \<open>old\<close>, \<open>new\<close> is put
  before every character and at the end.
\<close>

fun replace_scan :: "string \<Rightarrow> string \<Rightarrow> string \<Rightarrow> string" where
  "replace_scan old new [] = []"
| "replace_scan old new (c # cs) =
     (if startswith (c # cs) old
      then new @ replace_scan old new (drop (length old - 1) cs)
      else c # replace_scan old new cs)"

definition replace :: "string \<Rightarrow> string \<Rightarrow> string \<Rightarrow> string" where
  "replace s old new =
     (if old = [] then new @ concat (map (\<lambda>c. c # new) s) else replace_scan old new s)"

text \<open>\<^verbatim>\<open>"%d" % n\<close> for a natural number.\<close>

definition digit_char :: "nat \<Rightarrow> char" where
  "digit_char d = char_of (of_char CHR ''0'' + d)"

fun decimal :: "nat \<Rightarrow> string" where
  "decimal n = (if n < 10 then [digit_char n] else decimal (n div 10) @ [digit_char (n mod 10)])"

declare decimal.simps [simp del]

section \<open>The element tree and its serializer\<close>

text \<open>
  pack.py builds \<^verbatim>\<open>xml.etree.ElementTree\<close> elements and serializes them with
  \<^verbatim>\<open>ElementTree.tostring(envelope, encoding="UTF-8")\<close>.  The module falls back to the
  pure Python ElementTree 1.3 (its import block rejects a cElementTree older than 1.3.0),
  and the functions below follow that serializer: \<^verbatim>\<open>_namespaces\<close> allocates a prefix
  for every namespace in document order and \<^verbatim>\<open>_serialize_xml\<close> writes the tree, the
  namespace declarations on the root sorted by prefix.  An element is its tag
  (\<^verbatim>\<open>{uri}local\<close> or a plain name) and its children; attributes, text and tail are not
  modelled, the elements that pack.py creates itself have none.
\<close>

datatype element = Element (tag: string) (children: "element list")

text \<open>
  The well-known prefixes of \<^verbatim>\<open>ElementTree._namespace_map\<close>, as the library ships
  them: no further prefix is registered.
\<close>

definition namespace_map :: "(string \<times> string) list" where
  "namespace_map =
    [(''http://www.w3.org/XML/1998/namespace'', ''xml''),
     (''http://www.w3.org/1999/xhtml'', ''html''),
     (''http://www.w3.org/1999/02/22-rdf-syntax-ns#'', ''rdf''),
     (''http://schemas.xmlsoap.org/wsdl/'', ''wsdl''),
     (''http://www.w3.org/2001/XMLSchema'', ''xs''),
     (''http://www.w3.org/2001/XMLSchema-instance'', ''xsi''),
     (''http://purl.org/dc/elements/1.1/'', ''dc'')]"

text \<open>
  \<^verbatim>\<open>uri, tag = qname[1:].rsplit("}", 1)\<close>: split at the last closing brace; without one
  the unpacking raises ValueError.
\<close>

fun rsplit_brace :: "string \<Rightarrow> (string \<times> string) option" where
  "rsplit_brace [] = None"
| "rsplit_brace (c # cs) =
     (case rsplit_brace cs of
        Some (u, t) \<Rightarrow> Some (c # u, t)
      | None \<Rightarrow> (if c = CHR ''}'' then Some ([], cs) else None))"

text \<open>
  The two tables of \<^verbatim>\<open>_namespaces\<close>: \<open>qnames\<close> maps a tag to its serialized name,
  \<open>namespaces\<close> maps a URI to its prefix.
\<close>

type_synonym ns_tables = "(string \<times> string) list \<times> (string \<times> string) list"

definition add_qname :: "string \<Rightarrow> ns_tables \<Rightarrow> error + ns_tables" where
  "add_qname qname tabs =
     (let (qnames, namespaces) = tabs in
      if take 1 qname = ''{'' then
        (case rsplit_brace (drop 1 qname) of
           None \<Rightarrow> Inl ValueError
         | Some (uri, local) \<Rightarrow>
             (case map_of namespaces uri of
                Some pfx \<Rightarrow>
                  Inr (AList.update qname
                         (if pfx \<noteq> [] then pfx @ '':'' @ local else local) qnames,
                       namespaces)
              | None \<Rightarrow>
                  (let pfx = (case map_of namespace_map uri of
                                   Some p \<Rightarrow> p
                                 | None \<Rightarrow> ''ns'' @ decimal (length namespaces));
                       namespaces' = (if pfx \<noteq> ''xml''
                                      then AList.update uri pfx namespaces else namespaces)
                   in Inr (AList.update qname
                             (if pfx \<noteq> [] then pfx @ '':'' @ local else local) qnames,
                           namespaces'))))
      else Inr (AList.update qname qname qnames, namespaces))"

text \<open>The loop \<^verbatim>\<open>for elem in iterate()\<close>: the tree in document order.\<close>

fun collect :: "element \<Rightarrow> ns_tables \<Rightarrow> error + ns_tables"
  and collect_list :: "element list \<Rightarrow> ns_tables \<Rightarrow> error + ns_tables" where
  "collect (Element t cs) tabs =
     ebind (if map_of (fst tabs) t = None then add_qname t tabs else Inr tabs)
       (collect_list cs)"
| "collect_list [] tabs = Inr tabs"
| "collect_list (e # es) tabs = ebind (collect e tabs) (collect_list es)"

definition namespaces_of :: "element \<Rightarrow> error + ns_tables" where
  "namespaces_of root = collect root ([], [])"

text \<open>\<^verbatim>\<open>_escape_attrib\<close>, applied to the namespace URIs.\<close>

definition escape_attrib :: "string \<Rightarrow> string" where
  "escape_attrib s = concat (map (\<lambda>c.
      if c = CHR ''&'' then ''&amp;''
      else if c = CHR ''<'' then ''&lt;''
      else if c = CHR ''>'' then ''&gt;''
      else if c = CHR 0x22 then ''&quot;''
      else if c = CHR 0x0A then ''&#10;''
      else [c]) s)"

definition xmlns_decls :: "(string \<times> string) list \<Rightarrow> string" where
  "xmlns_decls namespaces =
     concat (map (\<lambda>(v, k). '' xmlns'' @ (if k \<noteq> [] then '':'' @ k else k) @ ''='' @
                             [CHR 0x22] @ escape_attrib v @ [CHR 0x22])
                 (sort_key snd namespaces))"

fun serialize_xml :: "(string \<times> string) list \<Rightarrow> string \<Rightarrow> element \<Rightarrow> error + string"
  and serialize_all :: "(string \<times> string) list \<Rightarrow> element list \<Rightarrow> error + string" where
  "serialize_xml qnames decls (Element t cs) =
     (case map_of qnames t of
        None \<Rightarrow> Inl KeyError
      | Some name \<Rightarrow>
          (if cs \<noteq> []
           then ebind (serialize_all qnames cs)
                  (\<lambda>inner. Inr (''<'' @ name @ decls @ ''>'' @ inner @ ''</'' @ name @ ''>''))
           else Inr (''<'' @ name @ decls @ '' />'')))"
| "serialize_all qnames [] = Inr []"
| "serialize_all qnames (e # es) =
     ebind (serialize_xml qnames [] e)
       (\<lambda>s. ebind (serialize_all qnames es) (\<lambda>r. Inr (s @ r)))"

text \<open>
  \<^verbatim>\<open>ElementTree.tostring(root, encoding="UTF-8")\<close>.  The encoding is neither
  \<^verbatim>\<open>"utf-8"\<close> nor \<^verbatim>\<open>"us-ascii"\<close> as the serializer spells them, so it writes an XML
  declaration (with single quotes) and a newline first.
\<close>

definition tostring :: "element \<Rightarrow> error + string" where
  "tostring root =
     ebind (namespaces_of root) (\<lambda>(qnames, namespaces).
       ebind (serialize_xml qnames (xmlns_decls namespaces) root) (\<lambda>s.
         Inr (''<?xml version='' @ [CHR 0x27] @ ''1.0'' @ [CHR 0x27] @ '' encoding='' @
              [CHR 0x27] @ ''UTF-8'' @ [CHR 0x27] @ ''?>'' @ [CHR 0x0A] @ s)))"

section \<open>pack.py: the SOAP encoder\<close>

definition NAMESPACE :: string where
  "NAMESPACE = ''http://schemas.xmlsoap.org/soap/envelope/''"

definition DUMMY_NAMESPACE :: string where
  "DUMMY_NAMESPACE = ''http://example.org/''"

definition PREFIX :: string where
  "PREFIX = ''<?xml version='' @ [CHR 0x22] @ ''1.0'' @ [CHR 0x22] @ '' encoding='' @
            [CHR 0x22] @ ''UTF-8'' @ [CHR 0x22] @ ''?>''"

text \<open>\<^verbatim>\<open>'{%s}Name' % uri\<close>.\<close>

definition clark :: "string \<Rightarrow> string \<Rightarrow> string" where
  "clark uri name = ''{'' @ uri @ ''}'' @ name"

text \<open>
  A message is either text (\<^verbatim>\<open>basestring\<close>) or a structured object of the protocol
  object model.  Of the object the code uses its rendering as a string, its element
  tree (what \<^verbatim>\<open>become_child_element_of\<close> appends to the parent), its class name and its
  identifier.
\<close>

record saml_object =
  obj_str :: string
  obj_tree :: element
  obj_class_name :: string
  obj_id :: string

datatype thingy = Text string | Obj saml_object

text \<open>
  \<^verbatim>\<open>make_soap_enveloped_saml_thingy(thingy, header_parts=None)\<close>.  The header parts are
  given by the elements they contribute; \<open>None\<close> and the empty list are both falsy.
\<close>

definition envelope_of :: "element list option \<Rightarrow> element \<Rightarrow> element" where
  "envelope_of header_parts child =
     Element (clark NAMESPACE ''Envelope'')
       ((case header_parts of
           None \<Rightarrow> []
         | Some parts \<Rightarrow>
             (if parts \<noteq> [] then [Element (clark NAMESPACE ''Header'') parts] else [])) @
        [Element (clark NAMESPACE ''Body'') [child]])"

definition make_soap_enveloped_saml_thingy ::
    "thingy \<Rightarrow> element list option \<Rightarrow> error + string" where
  "make_soap_enveloped_saml_thingy thingy header_parts =
     (case thingy of
        Text t \<Rightarrow>
          (let thingy' = replace t PREFIX [];
               child = Element (clark DUMMY_NAMESPACE ''FuddleMuddle'') []
           in ebind (tostring (envelope_of header_parts child)) (\<lambda>str.
                let i = find str DUMMY_NAMESPACE;
                    j = rfind str ''xmlns:'' 0 i;
                    cut1 = slice str j (i + int (length DUMMY_NAMESPACE) + 1);
                    cut2 = ''<'' @ slice cut1 6 9 @ '':FuddleMuddle />'';
                    str' = replace str cut1 []
                in Inr (replace str' cut2 thingy')))
      | Obj ob \<Rightarrow> tostring (envelope_of header_parts (obj_tree ob)))"

definition http_soap_message :: "thingy \<Rightarrow> error + (string \<times> string) list \<times> string" where
  "http_soap_message message =
     ebind (make_soap_enveloped_saml_thingy message None)
       (\<lambda>body. Inr ([(''Content-type'', ''application/soap+xml'')], body))"

definition http_paos ::
    "thingy \<Rightarrow> element list option \<Rightarrow> error + (string \<times> string) list \<times> string" where
  "http_paos message extra =
     ebind (make_soap_enveloped_saml_thingy message extra)
       (\<lambda>body. Inr ([(''Content-type'', ''application/soap+xml'')], body))"

section \<open>pack.py: the redirect binding\<close>

text \<open>\<^verbatim>\<open>sep.join(parts)\<close>.\<close>

fun join :: "string \<Rightarrow> string list \<Rightarrow> string" where
  "join sep [] = []"
| "join sep [x] = x"
| "join sep (x # y # ys) = x @ sep @ join sep (y # ys)"

definition is_digit :: "char \<Rightarrow> bool" where
  "is_digit c = (c \<in> set ''0123456789'')"

definition is_letter :: "char \<Rightarrow> bool" where
  "is_letter c = (c \<in> set ''abcdefghijklmnopqrstuvwxyzABCDEFGHIJKLMNOPQRSTUVWXYZ'')"

text \<open>
  \<^verbatim>\<open>urllib.quote_plus\<close>: letters, digits and \<^verbatim>\<open>_.-\<close> are kept, a space becomes
  \<^verbatim>\<open>+\<close>, every other character becomes \<^verbatim>\<open>%XX\<close>.
\<close>

definition hex_digit :: "nat \<Rightarrow> char" where
  "hex_digit n = ''0123456789ABCDEF'' ! (n mod 16)"

definition quote_plus :: "string \<Rightarrow> string" where
  "quote_plus s = concat (map (\<lambda>c.
      if is_letter c \<or> is_digit c \<or> c \<in> set ''_.-'' then [c]
      else if c = CHR '' '' then ''+''
      else [CHR ''%'', hex_digit (of_char c div 16), hex_digit (of_char c)]) s)"

text \<open>
  \<^verbatim>\<open>urllib.urlencode\<close> on the items of a dictionary of strings, in the order given.
\<close>

definition urlencode :: "(string \<times> string) list \<Rightarrow> string" where
  "urlencode query = join ''&'' (map (\<lambda>(k, v). quote_plus k @ ''='' @ quote_plus v) query)"

text \<open>
  \<^verbatim>\<open>urlparse.urlparse(url).query\<close>, following \<^verbatim>\<open>urlsplit\<close> of CPython 2.7: an optional
  scheme, a network location after \<^verbatim>\<open>//\<close> (ValueError when its square brackets do
  not pair), the fragment after the first \<^verbatim>\<open>#\<close>, and the query after the first
  \<^verbatim>\<open>?\<close> of what is left.
\<close>

definition query_part :: "string \<Rightarrow> string" where
  "query_part url =
     (let u = takeWhile (\<lambda>c. c \<noteq> CHR ''#'') url
      in if CHR ''?'' \<in> set u then drop 1 (dropWhile (\<lambda>c. c \<noteq> CHR ''?'') u) else [])"

definition split_after_scheme :: "string \<Rightarrow> error + string" where
  "split_after_scheme url =
     (if take 2 url = ''//'' then
        (let netloc = takeWhile (\<lambda>c. c \<notin> set ''/?#'') (drop 2 url);
             rest = dropWhile (\<lambda>c. c \<notin> set ''/?#'') (drop 2 url)
         in if (CHR ''['' \<in> set netloc \<and> CHR '']'' \<notin> set netloc) \<or>
               (CHR '']'' \<in> set netloc \<and> CHR ''['' \<notin> set netloc)
            then Inl ValueError
            else Inr (query_part rest))
      else Inr (query_part url))"

definition urlparse_query :: "string \<Rightarrow> error + string" where
  "urlparse_query url =
     (let i = find url '':'' in
      if i > 0 then
        (if take (nat i) url = ''http'' then split_after_scheme (drop (nat i + 1) url)
         else if list_all (\<lambda>c. is_letter c \<or> is_digit c \<or> c \<in> set ''+-.'') (take (nat i) url)
         then (let rest = drop (nat i + 1) url
               in if rest = [] \<or> \<not> list_all is_digit rest
                  then split_after_scheme rest else split_after_scheme url)
         else split_after_scheme url)
      else split_after_scheme url)"

text \<open>
  \<^verbatim>\<open>http_redirect_message(message, location, relay_state="", typ="SAMLRequest")\<close>.
  \<^verbatim>\<open>deflate_and_base64_encode\<close> lives in \<^verbatim>\<open>saml2.s_utils\<close> and is a parameter.  The
  dictionary \<^verbatim>\<open>args\<close> is the list of its entries; the order in which \<^verbatim>\<open>urlencode\<close>
  iterates over it is the order of the interpreter's hash table, which depends on the
  keys and on the build, and is the parameter \<open>items\<close>.
\<close>

definition message_text :: "thingy \<Rightarrow> string" where
  "message_text message = (case message of Text t \<Rightarrow> t | Obj ob \<Rightarrow> obj_str ob)"

definition redirect_args ::
    "(string \<Rightarrow> string) \<Rightarrow> thingy \<Rightarrow> string \<Rightarrow> string \<Rightarrow> (string \<times> string) list" where
  "redirect_args deflate_and_base64_encode message relay_state typ =
     (let args = [(typ, deflate_and_base64_encode (message_text message))]
      in if relay_state \<noteq> [] then AList.update ''RelayState'' relay_state args else args)"

definition http_redirect_message ::
    "((string \<times> string) list \<Rightarrow> (string \<times> string) list) \<Rightarrow> (string \<Rightarrow> string) \<Rightarrow>
     thingy \<Rightarrow> string \<Rightarrow> string \<Rightarrow> string \<Rightarrow>
     error + (string \<times> string) list \<times> string list" where
  "http_redirect_message items deflate_and_base64_encode message location relay_state typ =
     (let args = redirect_args deflate_and_base64_encode message relay_state typ
      in ebind (urlparse_query location) (\<lambda>query.
           let glue_char = (if query \<noteq> [] then ''&'' else ''?'');
               login_url = join glue_char [location, urlencode (items args)];
               headers = [(''Location'', login_url)];
               body = [[]]
           in Inr (headers, body)))"

definition http_post_message ::
    "thingy \<Rightarrow> string \<Rightarrow> string \<Rightarrow> string \<Rightarrow> (string \<times> string) list \<times> thingy" where
  "http_post_message message location relay_state typ =
     ([(''Content-type'', ''text/xml'')], message)"

section \<open>pack.py: the SOAP decoder\<close>

text \<open>
  \<^verbatim>\<open>parse_soap_enveloped_saml(text, body_class, header_class=None)\<close>.  The XML parser
  \<^verbatim>\<open>ElementTree.fromstring\<close> and the constructor \<^verbatim>\<open>saml2.create_class_from_element_tree\<close>
  are parameters; the constructor returns an object, or \<^verbatim>\<open>None\<close> when the element is
  not of the class, or raises.
\<close>

record saml_class =
  c_namespace :: string
  c_tag :: string

fun body_loop ::
    "(saml_class \<Rightarrow> element \<Rightarrow> error + 'o option) \<Rightarrow> saml_class \<Rightarrow> element list \<Rightarrow>
     'o option \<Rightarrow> error + 'o option" where
  "body_loop create body_class [] body = Inr body"
| "body_loop create body_class (sub # subs) body =
     (case create body_class sub of
        Inl e \<Rightarrow> Inl (PyException (''Wrong body type ('' @ tag sub @ '') in SOAP envelope''))
      | Inr b \<Rightarrow> body_loop create body_class subs b)"

fun klass_loop ::
    "(saml_class \<Rightarrow> element \<Rightarrow> error + 'o option) \<Rightarrow> saml_class list \<Rightarrow> element \<Rightarrow>
     (string \<times> 'o option) list \<Rightarrow> error + (string \<times> 'o option) list" where
  "klass_loop create [] sub header = Inr header"
| "klass_loop create (klass # ks) sub header =
     (if tag sub = clark (c_namespace klass) (c_tag klass)
      then ebind (create klass sub) (\<lambda>h. Inr (AList.update (tag sub) h header))
      else klass_loop create ks sub header)"

fun header_loop ::
    "(saml_class \<Rightarrow> element \<Rightarrow> error + 'o option) \<Rightarrow> saml_class list \<Rightarrow> element list \<Rightarrow>
     (string \<times> 'o option) list \<Rightarrow> error + (string \<times> 'o option) list" where
  "header_loop create header_class [] header = Inr header"
| "header_loop create header_class (sub # subs) header =
     ebind (klass_loop create header_class sub header) (header_loop create header_class subs)"

fun part_loop ::
    "(saml_class \<Rightarrow> element \<Rightarrow> error + 'o option) \<Rightarrow> saml_class \<Rightarrow>
     saml_class list option \<Rightarrow> element list \<Rightarrow> 'o option \<times> (string \<times> 'o option) list \<Rightarrow>
     error + 'o option \<times> (string \<times> 'o option) list" where
  "part_loop create body_class header_class [] st = Inr st"
| "part_loop create body_class header_class (part # parts) st =
     (if tag part = clark NAMESPACE ''Body''
      then ebind (body_loop create body_class (children part) (fst st))
             (\<lambda>body. part_loop create body_class header_class parts (body, snd st))
      else if tag part = clark NAMESPACE ''Header''
      then (case header_class of
              None \<Rightarrow> Inl (PyException ''Header where I didn't expect one'')
            | Some hc \<Rightarrow>
                (if hc = [] then Inl (PyException ''Header where I didn't expect one'')
                 else ebind (header_loop create hc (children part) (snd st))
                        (\<lambda>header. part_loop create body_class header_class parts (fst st, header))))
      else part_loop create body_class header_class parts st)"

definition parse_soap_enveloped_saml ::
    "(string \<Rightarrow> error + element) \<Rightarrow> (saml_class \<Rightarrow> element \<Rightarrow> error + 'o option) \<Rightarrow>
     string \<Rightarrow> saml_class \<Rightarrow> saml_class list option \<Rightarrow>
     error + 'o option \<times> (string \<times> 'o option) list" where
  "parse_soap_enveloped_saml fromstring create text body_class header_class =
     ebind (fromstring text) (\<lambda>envelope.
       if tag envelope \<noteq> clark NAMESPACE ''Envelope'' then Inl AssertionError
       else part_loop create body_class header_class (children envelope) (None, []))"

section \<open>httpbase.py: cookie dates\<close>

text \<open>
  \<^verbatim>\<open>time.strptime\<close> for the two formats that \<^verbatim>\<open>_since_epoch\<close> uses, in the C locale.
  CPython turns a format into a regular expression, matches it at the start of the
  string (case-insensitively, alternatives tried in order, with backtracking) and
  raises ValueError when nothing matches, when text is left over, or when the date
  does not exist.  A matcher returns every way to match a prefix of its input, in the
  order the regular expression engine tries them, each with the rest of the input.
\<close>

type_synonym 'a matcher = "string \<Rightarrow> ('a \<times> string) list"

definition digit_val :: "char \<Rightarrow> int" where
  "digit_val c = int (of_char c) - 48"

definition two_chars :: "(char \<Rightarrow> bool) \<Rightarrow> (char \<Rightarrow> bool) \<Rightarrow> int matcher" where
  "two_chars P Q s =
     (case s of
        a # b # r \<Rightarrow> (if P a \<and> Q b then [(10 * digit_val a + digit_val b, r)] else [])
      | _ \<Rightarrow> [])"

definition one_char :: "(char \<Rightarrow> bool) \<Rightarrow> int matcher" where
  "one_char P s = (case s of a # r \<Rightarrow> (if P a then [(digit_val a, r)] else []) | _ \<Rightarrow> [])"

definition literal :: "char \<Rightarrow> unit matcher" where
  "literal c s = (case s of a # r \<Rightarrow> (if a = c then [((), r)] else []) | _ \<Rightarrow> [])"

definition one_of :: "string \<Rightarrow> char \<Rightarrow> bool" where
  "one_of cs c = (c \<in> set cs)"

text \<open>\<^verbatim>\<open>%d\<close> is \<^verbatim>\<open>3[0-1]|[1-2]\d|0[1-9]|[1-9]| [1-9]\<close>.\<close>

definition match_d :: "int matcher" where
  "match_d s =
     two_chars (one_of ''3'') (one_of ''01'') s @
     two_chars (one_of ''12'') is_digit s @
     two_chars (one_of ''0'') (one_of ''123456789'') s @
     one_char (one_of ''123456789'') s @
     (case s of
        a # b # r \<Rightarrow> (if a = CHR '' '' \<and> one_of ''123456789'' b then [(digit_val b, r)] else [])
      | _ \<Rightarrow> [])"

text \<open>\<^verbatim>\<open>%b\<close> is the abbreviated month names, \<^verbatim>\<open>jan|feb|...|dec\<close>.\<close>

definition lower_char :: "char \<Rightarrow> char" where
  "lower_char c =
     (case map_of (zip ''ABCDEFGHIJKLMNOPQRSTUVWXYZ'' ''abcdefghijklmnopqrstuvwxyz'') c of
        Some l \<Rightarrow> l
      | None \<Rightarrow> c)"

definition lower :: "string \<Rightarrow> string" where
  "lower s = map lower_char s"

definition month_names :: "(string \<times> int) list" where
  "month_names =
     [(''jan'', 1), (''feb'', 2), (''mar'', 3), (''apr'', 4), (''may'', 5), (''jun'', 6),
      (''jul'', 7), (''aug'', 8), (''sep'', 9), (''oct'', 10), (''nov'', 11), (''dec'', 12)]"

definition match_b :: "int matcher" where
  "match_b s =
     (if length s < 3 then []
      else (case map_of month_names (lower (take 3 s)) of
              None \<Rightarrow> []
            | Some m \<Rightarrow> [(m, drop 3 s)]))"

text \<open>\<^verbatim>\<open>%Y\<close> is \<^verbatim>\<open>\d\d\d\d\<close> and \<^verbatim>\<open>%y\<close> is \<^verbatim>\<open>\d\d\<close>.\<close>

definition match_Y :: "int matcher" where
  "match_Y s =
     (case s of
        a # b # c # d # r \<Rightarrow>
          (if is_digit a \<and> is_digit b \<and> is_digit c \<and> is_digit d
           then [(1000 * digit_val a + 100 * digit_val b + 10 * digit_val c + digit_val d, r)]
           else [])
      | _ \<Rightarrow> [])"

definition match_y :: "int matcher" where
  "match_y s = two_chars is_digit is_digit s"

text \<open>
  \<^verbatim>\<open>%H\<close> is \<^verbatim>\<open>2[0-3]|[0-1]\d|\d\<close>, \<^verbatim>\<open>%M\<close> is \<^verbatim>\<open>[0-5]\d|\d\<close> and \<^verbatim>\<open>%S\<close> is
  \<^verbatim>\<open>6[0-1]|[0-5]\d|\d\<close>.
\<close>

definition match_H :: "int matcher" where
  "match_H s =
     two_chars (one_of ''2'') (one_of ''0123'') s @
     two_chars (one_of ''01'') is_digit s @
     one_char is_digit s"

definition match_M :: "int matcher" where
  "match_M s = two_chars (one_of ''012345'') is_digit s @ one_char is_digit s"

definition match_S :: "int matcher" where
  "match_S s =
     two_chars (one_of ''6'') (one_of ''01'') s @
     two_chars (one_of ''012345'') is_digit s @
     one_char is_digit s"

text \<open>The blank of the format is \<^verbatim>\<open>\s+\<close>: the longest run of white space first.\<close>

definition is_space :: "char \<Rightarrow> bool" where
  "is_space c = (c \<in> set [CHR '' '', CHR 0x09, CHR 0x0A, CHR 0x0B, CHR 0x0C, CHR 0x0D])"

definition match_spaces :: "unit matcher" where
  "match_spaces s =
     map (\<lambda>k. ((), drop k s)) (rev [1 ..< Suc (length (takeWhile is_space s))])"

record struct_time =
  tm_year :: int
  tm_mon :: int
  tm_mday :: int
  tm_hour :: int
  tm_min :: int
  tm_sec :: int

text \<open>
  The whole pattern \<^verbatim>\<open>%d-%b-%Y %H:%M:%S\<close> (or with \<^verbatim>\<open>%y\<close>, whose two digits mean
  20xx up to 68 and 19xx from 69).
\<close>

definition match_date :: "bool \<Rightarrow> struct_time matcher" where
  "match_date four s =
     List.bind (match_d s) (\<lambda>(d, s1).
     List.bind (literal CHR ''-'' s1) (\<lambda>(_, s2).
     List.bind (match_b s2) (\<lambda>(b, s3).
     List.bind (literal CHR ''-'' s3) (\<lambda>(_, s4).
     List.bind (if four then match_Y s4
                else map (\<lambda>(y, r). (if y \<le> 68 then y + 2000 else y + 1900, r)) (match_y s4))
       (\<lambda>(y, s5).
     List.bind (match_spaces s5) (\<lambda>(_, s6).
     List.bind (match_H s6) (\<lambda>(h, s7).
     List.bind (literal CHR '':'' s7) (\<lambda>(_, s8).
     List.bind (match_M s8) (\<lambda>(m, s9).
     List.bind (literal CHR '':'' s9) (\<lambda>(_, s10).
     List.bind (match_S s10) (\<lambda>(sec, s11).
       [(\<lparr>tm_year = y, tm_mon = b, tm_mday = d, tm_hour = h, tm_min = m, tm_sec = sec\<rparr>,
         s11)])))))))))))"

definition is_leap :: "int \<Rightarrow> bool" where
  "is_leap y = (y mod 4 = 0 \<and> (y mod 100 \<noteq> 0 \<or> y mod 400 = 0))"

definition days_in_month :: "int \<Rightarrow> int \<Rightarrow> int" where
  "days_in_month y m =
     (if m = 2 then (if is_leap y then 29 else 28)
      else if m \<in> {4, 6, 9, 11} then 30 else 31)"

text \<open>\<^verbatim>\<open>datetime.date(year, month, day)\<close> accepts the date.\<close>

definition valid_date :: "struct_time \<Rightarrow> bool" where
  "valid_date t =
     (1 \<le> tm_year t \<and> tm_year t \<le> 9999 \<and> 1 \<le> tm_mon t \<and> tm_mon t \<le> 12 \<and>
      1 \<le> tm_mday t \<and> tm_mday t \<le> days_in_month (tm_year t) (tm_mon t))"

definition strptime :: "string \<Rightarrow> string \<Rightarrow> error + struct_time" where
  "strptime data_string format =
     (if format \<noteq> ''%d-%b-%Y %H:%M:%S'' \<and> format \<noteq> ''%d-%b-%y %H:%M:%S''
      then Inl (OtherError ''format'')
      else (case match_date (format = ''%d-%b-%Y %H:%M:%S'') data_string of
              [] \<Rightarrow> Inl ValueError
            | (t, rest) # _ \<Rightarrow>
                (if rest \<noteq> [] then Inl ValueError
                 else if \<not> valid_date t then Inl ValueError
                 else Inr t)))"

text \<open>
  \<^verbatim>\<open>int(time.mktime(t))\<close>, with UTC as the local time zone: the days since
  1970-01-01 of the civil date, and the time of day.  CPython 2.7 reads a year from 0
  to 99 as a two-digit year (69 to 99 in 19xx, 0 to 68 in 20xx) and raises ValueError
  for any other year before 1900.
\<close>

definition days_from_civil :: "int \<Rightarrow> int \<Rightarrow> int \<Rightarrow> int" where
  "days_from_civil y m d =
     (let y' = (if m \<le> 2 then y - 1 else y);
          era = y' div 400;
          yoe = y' - era * 400;
          doy = (153 * (if m > 2 then m - 3 else m + 9) + 2) div 5 + d - 1;
          doe = yoe * 365 + yoe div 4 - yoe div 100 + doy
      in era * 146097 + doe - 719468)"

definition mktime :: "struct_time \<Rightarrow> error + int" where
  "mktime t =
     (let y = tm_year t in
      if y < 1900 \<and> \<not> (0 \<le> y \<and> y \<le> 99) then Inl ValueError
      else (let y' = (if y < 1900 then (if 69 \<le> y then y + 1900 else y + 2000) else y)
            in Inr (days_from_civil y' (tm_mon t) (tm_mday t) * 86400 +
                    tm_hour t * 3600 + tm_min t * 60 + tm_sec t)))"

text \<open>
  \<^verbatim>\<open>_since_epoch(cdate)\<close>.  Slicing anything but a string raises TypeError; the second
  format is tried when the first raises ValueError; \<^verbatim>\<open>mktime\<close> is called outside the
  \<^verbatim>\<open>try\<close>.
\<close>

definition since_epoch :: "pyval \<Rightarrow> error + int" where
  "since_epoch cdate =
     (case cdate of
        PyStr s \<Rightarrow>
          (let cdate' = slice s 5 (- 4)
           in (case strptime cdate' ''%d-%b-%Y %H:%M:%S'' of
                 Inr t \<Rightarrow> mktime t
               | Inl ValueError \<Rightarrow> ebind (strptime cdate' ''%d-%b-%y %H:%M:%S'') mktime
               | Inl e \<Rightarrow> Inl e))
      | _ \<Rightarrow> Inl TypeError)"

section \<open>httpbase.py: cookies\<close>

text \<open>
  A \<^verbatim>\<open>Cookie.Morsel\<close> as \<^verbatim>\<open>set_cookie\<close> reads it: the coded value and the reserved
  attributes.  Every attribute is the empty string until it is set.  The domain and the
  path, which key the jar, are strings; the other attributes are untyped.
\<close>

record morsel =
  coded_value :: string
  m_expires :: pyval
  m_path :: string
  m_comment :: pyval
  m_domain :: string
  m_max_age :: pyval
  m_secure :: pyval
  m_version :: pyval
  m_httponly :: pyval

text \<open>The dictionary \<^verbatim>\<open>std_attr\<close>, a copy of \<^verbatim>\<open>ATTRS\<close> with one field for each key.\<close>

record std_attr =
  sa_version :: pyval
  sa_name :: string
  sa_value :: pyval
  sa_port :: pyval
  sa_port_specified :: bool
  sa_domain :: string
  sa_domain_specified :: bool
  sa_domain_initial_dot :: bool
  sa_path :: string
  sa_path_specified :: bool
  sa_secure :: pyval
  sa_expires :: pyval
  sa_discard :: bool
  sa_comment :: pyval
  sa_comment_url :: pyval
  sa_rest :: string
  sa_rfc2109 :: bool

definition ATTRS :: std_attr where
  "ATTRS = \<lparr>sa_version = PyNone, sa_name = [], sa_value = PyNone, sa_port = PyNone,
     sa_port_specified = False, sa_domain = [], sa_domain_specified = False,
     sa_domain_initial_dot = False, sa_path = [], sa_path_specified = False,
     sa_secure = PyBool False, sa_expires = PyNone, sa_discard = True, sa_comment = PyNone,
     sa_comment_url = PyNone, sa_rest = [], sa_rfc2109 = True\<rparr>"

text \<open>
  The loop \<^verbatim>\<open>for attr in morsel.keys()\<close>.  The keys are visited in the order in which
  \<^verbatim>\<open>Morsel._reserved\<close> lists them; \<^verbatim>\<open>httponly\<close> is in neither branch.  Only
  \<^verbatim>\<open>expires\<close> and \<^verbatim>\<open>max-age\<close> write the same key.
\<close>

definition copy_attributes :: "morsel \<Rightarrow> std_attr \<Rightarrow> error + std_attr" where
  "copy_attributes m sa =
     ebind (if truthy (m_expires m)
            then ebind (since_epoch (m_expires m)) (\<lambda>t. Inr (sa\<lparr>sa_expires := PyInt t\<rparr>))
            else Inr sa) (\<lambda>sa.
     let sa = (if m_path m \<noteq> [] then sa\<lparr>sa_path := m_path m\<rparr> else sa);
         sa = (if truthy (m_comment m) then sa\<lparr>sa_comment := m_comment m\<rparr> else sa);
         sa = (if m_domain m \<noteq> [] then sa\<lparr>sa_domain := m_domain m\<rparr> else sa)
     in ebind (if truthy (m_max_age m)
               then ebind (since_epoch (m_max_age m)) (\<lambda>t. Inr (sa\<lparr>sa_expires := PyInt t\<rparr>))
               else Inr sa) (\<lambda>sa.
     let sa = (if truthy (m_secure m) then sa\<lparr>sa_secure := m_secure m\<rparr> else sa);
         sa = (if truthy (m_version m) then sa\<lparr>sa_version := m_version m\<rparr> else sa)
     in Inr sa))"

text \<open>The loop over \<^verbatim>\<open>PAIRS\<close> and the test for a leading dot.\<close>

definition set_pairs :: "std_attr \<Rightarrow> std_attr" where
  "set_pairs sa =
     (let sa = (if truthy (sa_port sa) then sa\<lparr>sa_port_specified := True\<rparr> else sa);
          sa = (if sa_domain sa \<noteq> [] then sa\<lparr>sa_domain_specified := True\<rparr> else sa);
          sa = (if sa_path sa \<noteq> [] then sa\<lparr>sa_path_specified := True\<rparr> else sa)
      in sa)"

definition set_initial_dot :: "std_attr \<Rightarrow> std_attr" where
  "set_initial_dot sa =
     (if sa_domain sa \<noteq> [] \<and> startswith (sa_domain sa) ''.''
      then sa\<lparr>sa_domain_initial_dot := True\<rparr> else sa)"

text \<open>
  \<^verbatim>\<open>int(x)\<close>: of a string, white space around an optional sign and decimal digits.
\<close>

definition strip :: "string \<Rightarrow> string" where
  "strip s = rev (dropWhile is_space (rev (dropWhile is_space s)))"

definition digits_value :: "string \<Rightarrow> int" where
  "digits_value ds = foldl (\<lambda>n c. 10 * n + digit_val c) 0 ds"

definition py_int :: "pyval \<Rightarrow> error + int" where
  "py_int v =
     (case v of
        PyNone \<Rightarrow> Inl TypeError
      | PyBool b \<Rightarrow> Inr (if b then 1 else 0)
      | PyInt i \<Rightarrow> Inr i
      | PyStr s \<Rightarrow>
          (let t = strip s;
               neg = (take 1 t = ''-'');
               ds = (if take 1 t = ''-'' \<or> take 1 t = ''+'' then drop 1 t else t)
           in if ds \<noteq> [] \<and> list_all is_digit ds
              then Inr (if neg then - digits_value ds else digits_value ds)
              else Inl ValueError))"

text \<open>
  \<^verbatim>\<open>cookielib.Cookie\<close>.  Its constructor converts version and expiry with
  \<^verbatim>\<open>int\<close> unless they are \<^verbatim>\<open>None\<close>, rejects a specified port that is \<^verbatim>\<open>None\<close>, and
  stores the domain in lower case.
\<close>

record cookie =
  ck_version :: "int option"
  ck_name :: string
  ck_value :: pyval
  ck_port :: pyval
  ck_port_specified :: bool
  ck_domain :: string
  ck_domain_specified :: bool
  ck_domain_initial_dot :: bool
  ck_path :: string
  ck_path_specified :: bool
  ck_secure :: pyval
  ck_expires :: "int option"
  ck_discard :: bool
  ck_comment :: pyval
  ck_comment_url :: pyval
  ck_rest :: string
  ck_rfc2109 :: bool

definition int_unless_none :: "pyval \<Rightarrow> error + int option" where
  "int_unless_none v = (if v = PyNone then Inr None else ebind (py_int v) (\<lambda>i. Inr (Some i)))"

definition Cookie :: "std_attr \<Rightarrow> error + cookie" where
  "Cookie sa =
     ebind (int_unless_none (sa_version sa)) (\<lambda>version.
     ebind (int_unless_none (sa_expires sa)) (\<lambda>expires.
       if sa_port sa = PyNone \<and> sa_port_specified sa then Inl ValueError
       else Inr \<lparr>ck_version = version, ck_name = sa_name sa, ck_value = sa_value sa,
                 ck_port = sa_port sa, ck_port_specified = sa_port_specified sa,
                 ck_domain = lower (sa_domain sa),
                 ck_domain_specified = sa_domain_specified sa,
                 ck_domain_initial_dot = sa_domain_initial_dot sa,
                 ck_path = sa_path sa, ck_path_specified = sa_path_specified sa,
                 ck_secure = sa_secure sa, ck_expires = expires,
                 ck_discard = sa_discard sa, ck_comment = sa_comment sa,
                 ck_comment_url = sa_comment_url sa, ck_rest = sa_rest sa,
                 ck_rfc2109 = sa_rfc2109 sa\<rparr>))"

text \<open>
  \<^verbatim>\<open>cookielib.CookieJar\<close>: the dictionary \<^verbatim>\<open>_cookies\<close> from domain to path to name
  to cookie.  \<^verbatim>\<open>set_cookie\<close> creates the inner dictionaries as needed;
  \<^verbatim>\<open>clear(domain, path, name)\<close> is \<^verbatim>\<open>del self._cookies[domain][path][name]\<close> and raises
  KeyError when any of the three keys is missing.
\<close>

type_synonym jar = "(string \<times> (string \<times> (string \<times> cookie) list) list) list"

definition jar_lookup :: "jar \<Rightarrow> string \<Rightarrow> string \<Rightarrow> string \<Rightarrow> cookie option" where
  "jar_lookup j d p n =
     (case map_of j d of
        None \<Rightarrow> None
      | Some c2 \<Rightarrow> (case map_of c2 p of None \<Rightarrow> None | Some c3 \<Rightarrow> map_of c3 n))"

definition jar_set_cookie :: "jar \<Rightarrow> cookie \<Rightarrow> jar" where
  "jar_set_cookie j c =
     (let c2 = (case map_of j (ck_domain c) of None \<Rightarrow> [] | Some x \<Rightarrow> x);
          c3 = (case map_of c2 (ck_path c) of None \<Rightarrow> [] | Some x \<Rightarrow> x)
      in AList.update (ck_domain c)
           (AList.update (ck_path c) (AList.update (ck_name c) c c3) c2) j)"

definition jar_clear :: "jar \<Rightarrow> string \<Rightarrow> string \<Rightarrow> string \<Rightarrow> error + jar" where
  "jar_clear j d p n =
     (case map_of j d of
        None \<Rightarrow> Inl KeyError
      | Some c2 \<Rightarrow>
          (case map_of c2 p of
             None \<Rightarrow> Inl KeyError
           | Some c3 \<Rightarrow>
               (case map_of c3 n of
                  None \<Rightarrow> Inl KeyError
                | Some _ \<Rightarrow>
                    Inr (AList.update d (AList.update p (AList.delete n c3) c2) j))))"

text \<open>All cookies of the jar, as iterating over it yields them.\<close>

definition jar_cookies :: "jar \<Rightarrow> cookie list" where
  "jar_cookies j = concat (map (\<lambda>(d, c2). concat (map (\<lambda>(p, c3). map snd c3) c2)) j)"

text \<open>
  The body of the loop of \<^verbatim>\<open>set_cookie(self, kaka, request)\<close> for one cookie.  Only a
  ValueError of \<^verbatim>\<open>clear\<close> is caught.
\<close>

definition standard_attributes :: "string \<Rightarrow> morsel \<Rightarrow> error + std_attr" where
  "standard_attributes cookie_name m =
     (let sa = ATTRS\<lparr>sa_name := cookie_name\<rparr>;
          tmp = coded_value m;
          sa = (if startswith tmp [CHR 0x22] \<and> endswith tmp [CHR 0x22]
                then sa\<lparr>sa_value := PyStr (slice tmp 1 (- 1))\<rparr>
                else sa\<lparr>sa_value := PyStr tmp\<rparr>);
          sa = sa\<lparr>sa_version := PyInt 0\<rparr>
      in ebind (copy_attributes m sa) (\<lambda>sa. Inr (set_initial_dot (set_pairs sa))))"

definition set_one_cookie :: "jar \<Rightarrow> string \<times> morsel \<Rightarrow> error + jar" where
  "set_one_cookie j km =
     (let (cookie_name, m) = km in
      ebind (standard_attributes cookie_name m) (\<lambda>sa.
        if m_max_age m = PyInt 0 then
          (case jar_clear j (sa_domain sa) (sa_path sa) (sa_name sa) of
             Inl ValueError \<Rightarrow> Inr j
           | Inl e \<Rightarrow> Inl e
           | Inr j' \<Rightarrow> Inr j')
        else ebind (Cookie sa) (\<lambda>new_cookie. Inr (jar_set_cookie j new_cookie))))"

text \<open>
  \<^verbatim>\<open>set_cookie\<close>: the cookies of \<open>kaka\<close> in the order of its items.  The result is the
  jar as the call leaves it, with the exception if one was raised.
\<close>

fun set_cookie :: "(string \<times> morsel) list \<Rightarrow> jar \<Rightarrow> (error + unit) \<times> jar" where
  "set_cookie [] j = (Inr (), j)"
| "set_cookie (km # kaka) j =
     (case set_one_cookie j km of
        Inl e \<Rightarrow> (Inl e, j)
      | Inr j' \<Rightarrow> set_cookie kaka j')"

section \<open>httpbase.py: transport\<close>

text \<open>
  The keyword arguments handed to \<^verbatim>\<open>requests.request\<close>, and the response as
  \<^verbatim>\<open>HTTPBase\<close> uses it: its truth value (\<^verbatim>\<open>Response.ok\<close>) and the lookup
  \<^verbatim>\<open>r.headers[key]\<close>.  The lookup is the header mapping's own: \<open>Inr (Some v)\<close> for a
  header that is there, and for a missing one what that mapping does, which is
  \<open>Inr None\<close> for a mapping that falls through to \<^verbatim>\<open>None\<close> and \<open>Inl KeyError\<close> for
  one that behaves as a dictionary.
\<close>

datatype kwval =
    KBool bool
  | KStr string
  | KDict "(string \<times> string) list"
  | KCookies "(string \<times> pyval) list"
  | KCert "string option" string

record response =
  resp_ok :: bool
  resp_headers :: "string \<Rightarrow> error + string option"
  resp_text :: string

type_synonym signer = "string \<Rightarrow> string \<Rightarrow> string \<Rightarrow> error + string"

record httpbase =
  request_args :: "(string \<times> kwval) list"
  cookiejar :: jar
  sec :: "signer option"

definition dict_update :: "(string \<times> 'v) list \<Rightarrow> (string \<times> 'v) list \<Rightarrow> (string \<times> 'v) list" where
  "dict_update d other = foldl (\<lambda>acc kv. AList.update (fst kv) (snd kv) acc) d other"

definition init_httpbase ::
    "bool \<Rightarrow> string option \<Rightarrow> string option \<Rightarrow> string option \<Rightarrow> httpbase" where
  "init_httpbase verify ca_bundle key_file cert_file =
     (let args = [(''allow_redirects'', KBool False)];
          args = AList.update ''verify'' (KBool verify) args;
          args = (case ca_bundle of
                    None \<Rightarrow> args
                  | Some b \<Rightarrow> (if b \<noteq> [] then AList.update ''verify'' (KStr b) args else args));
          args = (case key_file of
                    None \<Rightarrow> args
                  | Some k \<Rightarrow> (if k \<noteq> [] then AList.update ''cert'' (KCert cert_file k) args
                               else args))
      in \<lparr>request_args = args, cookiejar = [], sec = None\<rparr>)"

text \<open>\<^verbatim>\<open>_cookies(self)\<close>: name to value, a later cookie of the same name winning.\<close>

definition cookies_dict :: "jar \<Rightarrow> (string \<times> pyval) list" where
  "cookies_dict j =
     foldl (\<lambda>d c. AList.update (ck_name c) (ck_value c) d) [] (jar_cookies j)"

text \<open>
  \<^verbatim>\<open>SimpleCookie(input)\<close> loads its input unless it is falsy.  The parser of a
  \<^verbatim>\<open>Set-Cookie\<close> value is the parameter \<open>load\<close>.
\<close>

definition SimpleCookie ::
    "(string \<Rightarrow> error + (string \<times> morsel) list) \<Rightarrow> string option \<Rightarrow>
     error + (string \<times> morsel) list" where
  "SimpleCookie load input =
     (case input of None \<Rightarrow> Inr [] | Some s \<Rightarrow> (if s = [] then Inr [] else load s))"

text \<open>
  The keyword arguments of the request: the fixed ones, the caller's over them, and
  the cookies of a jar that is not empty.
\<close>

definition send_kwargs :: "httpbase \<Rightarrow> (string \<times> kwval) list \<Rightarrow> (string \<times> kwval) list" where
  "send_kwargs self kwargs =
     (let kw = dict_update (request_args self) kwargs
      in if jar_cookies (cookiejar self) \<noteq> []
         then AList.update ''cookies'' (KCookies (cookies_dict (cookiejar self))) kw
         else kw)"

text \<open>
  \<^verbatim>\<open>send(self, url, method="GET", **kwargs)\<close>.  \<^verbatim>\<open>requests.request\<close> is the parameter
  \<open>request\<close>.  The result is the response or the exception, with the object as the
  call leaves it.
\<close>

definition send ::
    "(string \<Rightarrow> string \<Rightarrow> (string \<times> kwval) list \<Rightarrow> error + response) \<Rightarrow>
     (string \<Rightarrow> error + (string \<times> morsel) list) \<Rightarrow>
     httpbase \<Rightarrow> string \<Rightarrow> string \<Rightarrow> (string \<times> kwval) list \<Rightarrow>
     (error + response) \<times> httpbase" where
  "send request load self url method kwargs =
     (case request method url (send_kwargs self kwargs) of
           Inl e \<Rightarrow> (Inl (if e = RequestsConnectionError then ConnectionError else e), self)
         | Inr r \<Rightarrow>
             (case ebind (resp_headers r ''set-cookie'') (SimpleCookie load) of
                Inl e \<Rightarrow> (if e = AttributeError then Inr r else Inl e, self)
              | Inr kaka \<Rightarrow>
                  (case set_cookie kaka (cookiejar self) of
                     (Inl e, j) \<Rightarrow>
                       (if e = AttributeError then Inr r else Inl e, self\<lparr>cookiejar := j\<rparr>)
                   | (Inr u, j) \<Rightarrow> (Inr r, self\<lparr>cookiejar := j\<rparr>))))"

text \<open>
  \<^verbatim>\<open>send_using_soap(self, request, destination, headers=None, sign=False)\<close>.  It returns
  \<^verbatim>\<open>None\<close>, \<^verbatim>\<open>False\<close> or what \<^verbatim>\<open>parse_soap_enveloped_saml_response\<close> (of
  \<^verbatim>\<open>saml2.soap\<close>, a parameter) makes of the response.  Signing a text message fails
  on \<^verbatim>\<open>request.id\<close>.
\<close>

datatype 'r soap_result = ResultNone | ResultFalse | Parsed 'r

definition sign_message :: "httpbase \<Rightarrow> thingy \<Rightarrow> bool \<Rightarrow> string \<Rightarrow> error + string" where
  "sign_message self req sign soap_message =
     (case sec self of
        None \<Rightarrow> Inr soap_message
      | Some sign_statement_using_xmlsec \<Rightarrow>
          (if sign then
             (case req of
                Text t \<Rightarrow> Inl AttributeError
              | Obj ob \<Rightarrow> sign_statement_using_xmlsec soap_message (obj_class_name ob) (obj_id ob))
           else Inr soap_message))"

definition send_using_soap ::
    "(string \<Rightarrow> string \<Rightarrow> (string \<times> kwval) list \<Rightarrow> error + response) \<Rightarrow>
     (string \<Rightarrow> error + (string \<times> morsel) list) \<Rightarrow>
     (response \<Rightarrow> error + 'r) \<Rightarrow>
     httpbase \<Rightarrow> thingy \<Rightarrow> string \<Rightarrow> (string \<times> string) list option \<Rightarrow> bool \<Rightarrow>
     (error + 'r soap_result) \<times> httpbase" where
  "send_using_soap request load parse_soap_enveloped_saml_response self req destination
       headers sign =
     (let headers' = (case headers of
                        None \<Rightarrow> [(''content-type'', ''application/soap+xml'')]
                      | Some h \<Rightarrow> AList.update ''content-type'' ''application/soap+xml'' h)
      in case ebind (make_soap_enveloped_saml_thingy req None) (sign_message self req sign) of
           Inl e \<Rightarrow> (Inl e, self)
         | Inr soap_message \<Rightarrow>
             (case send request load self destination ''POST''
                     [(''data'', KStr soap_message), (''headers'', KDict headers')] of
                (Inl exc, self') \<Rightarrow> (Inr ResultNone, self')
              | (Inr response, self') \<Rightarrow>
                  (if resp_ok response
                   then (ebind (parse_soap_enveloped_saml_response response)
                           (\<lambda>p. Inr (Parsed p)), self')
                   else (Inr ResultFalse, self'))))"

section \<open>Values used in the statements\<close>

text \<open>
  The envelope that the serializer writes around the placeholder when there are no
  header parts, its parts, and the text around the spliced message.
\<close>

definition placeholder_envelope :: string where
  "placeholder_envelope = ''<?xml version='' @ [CHR 0x27] @ ''1.0'' @ [CHR 0x27] @ '' encoding='' @
     [CHR 0x27] @ ''UTF-8'' @ [CHR 0x27] @ ''?>'' @ [CHR 0x0A] @
     ''<ns0:Envelope xmlns:ns0='' @ [CHR 0x22] @ ''http://schemas.xmlsoap.org/soap/envelope/'' @
     [CHR 0x22] @ '' xmlns:ns1='' @ [CHR 0x22] @ ''http://example.org/'' @ [CHR 0x22] @
     ''><ns0:Body><ns1:FuddleMuddle /></ns0:Body></ns0:Envelope>''"

definition dummy_decl :: string where
  "dummy_decl = ''xmlns:ns1='' @ [CHR 0x22] @ ''http://example.org/'' @ [CHR 0x22]"

definition placeholder :: string where
  "placeholder = ''<ns1:FuddleMuddle />''"

definition envelope_open :: string where
  "envelope_open = ''<?xml version='' @ [CHR 0x27] @ ''1.0'' @ [CHR 0x27] @ '' encoding='' @
     [CHR 0x27] @ ''UTF-8'' @ [CHR 0x27] @ ''?>'' @ [CHR 0x0A] @
     ''<ns0:Envelope xmlns:ns0='' @ [CHR 0x22] @ ''http://schemas.xmlsoap.org/soap/envelope/'' @
     [CHR 0x22] @ '' ><ns0:Body>''"

definition envelope_close :: string where
  "envelope_close = ''</ns0:Body></ns0:Envelope>''"

text \<open>
  The declaration of the placeholder's namespace under the prefix \<open>p\<close>, and the
  placeholder as the serializer writes it.
\<close>

definition dummy_declaration :: "string \<Rightarrow> string" where
  "dummy_declaration p = ''xmlns:'' @ p @ ''='' @ [CHR 0x22] @ DUMMY_NAMESPACE @ [CHR 0x22]"

definition placeholder_tag :: "string \<Rightarrow> string" where
  "placeholder_tag p = ''<'' @ p @ '':FuddleMuddle />''"

text \<open>
  The serialized envelope before the declaration, and between the declaration and the
  placeholder: without header parts, with one header part and with eight, each header
  part in a namespace of its own.
\<close>

definition bare_A :: string where
  "bare_A =
     ''<?xml version='' @ [CHR 0x27] @ ''1.0'' @ [CHR 0x27] @ '' encoding='' @
     [CHR 0x27] @ ''UTF-8'' @ [CHR 0x27] @ ''?>'' @ [CHR 0x0A] @
     ''<ns0:Envelope xmlns:ns0='' @ [CHR 0x22] @
     ''http://schemas.xmlsoap.org/soap/envelope/'' @ [CHR 0x22] @ '' ''"

definition bare_B :: string where
  "bare_B = ''><ns0:Body>''"

definition one_headers :: "element list" where
  "one_headers = map (\<lambda>n. Element (clark (''urn:h'' @ decimal n) ''P'') []) [0 ..< 1]"

definition one_A :: string where
  "one_A =
     ''<?xml version='' @ [CHR 0x27] @ ''1.0'' @ [CHR 0x27] @ '' encoding='' @
     [CHR 0x27] @ ''UTF-8'' @ [CHR 0x27] @ ''?>'' @ [CHR 0x0A] @
     ''<ns0:Envelope xmlns:ns0='' @ [CHR 0x22] @
     ''http://schemas.xmlsoap.org/soap/envelope/'' @ [CHR 0x22] @ '' xmlns:ns1='' @
     [CHR 0x22] @ ''urn:h0'' @ [CHR 0x22] @ '' ''"

definition one_B :: string where
  "one_B = ''><ns0:Header><ns1:P /></ns0:Header><ns0:Body>''"

definition eight_headers :: "element list" where
  "eight_headers = map (\<lambda>n. Element (clark (''urn:h'' @ decimal n) ''P'') []) [0 ..< 8]"

definition eight_A :: string where
  "eight_A =
     ''<?xml version='' @ [CHR 0x27] @ ''1.0'' @ [CHR 0x27] @ '' encoding='' @
     [CHR 0x27] @ ''UTF-8'' @ [CHR 0x27] @ ''?>'' @ [CHR 0x0A] @
     ''<ns0:Envelope xmlns:ns0='' @ [CHR 0x22] @
     ''http://schemas.xmlsoap.org/soap/envelope/'' @ [CHR 0x22] @ '' xmlns:ns1='' @
     [CHR 0x22] @ ''urn:h0'' @ [CHR 0x22] @ '' xmlns:ns2='' @ [CHR 0x22] @ ''urn:h1'' @
     [CHR 0x22] @ '' xmlns:ns3='' @ [CHR 0x22] @ ''urn:h2'' @ [CHR 0x22] @
     '' xmlns:ns4='' @ [CHR 0x22] @ ''urn:h3'' @ [CHR 0x22] @ '' xmlns:ns5='' @
     [CHR 0x22] @ ''urn:h4'' @ [CHR 0x22] @ '' xmlns:ns6='' @ [CHR 0x22] @ ''urn:h5'' @
     [CHR 0x22] @ '' xmlns:ns7='' @ [CHR 0x22] @ ''urn:h6'' @ [CHR 0x22] @
     '' xmlns:ns8='' @ [CHR 0x22] @ ''urn:h7'' @ [CHR 0x22] @ '' ''"

definition eight_B :: string where
  "eight_B = ''><ns0:Header><ns1:P /><ns2:P /><ns3:P /><ns4:P /><ns5:P />'' @
     ''<ns6:P /><ns7:P /><ns8:P /></ns0:Header><ns0:Body>''"

text \<open>A well-formed fragment with the XML declaration inside a comment.\<close>

definition comment_fragment :: string where
  "comment_fragment = ''<a><!--'' @ PREFIX @ ''--></a>''"

text \<open>
  Nine header parts, each in a namespace of its own, and what the serializer and the
  excision make of the envelope around them.
\<close>

definition nine_headers :: "element list" where
  "nine_headers = map (\<lambda>n. Element (clark (''urn:h'' @ decimal n) ''P'') []) [0 ..< 9]"

definition ten_envelope :: string where
  "ten_envelope =
     ''<?xml version='' @ [CHR 0x27] @ ''1.0'' @ [CHR 0x27] @ '' encoding='' @
     [CHR 0x27] @ ''UTF-8'' @ [CHR 0x27] @ ''?>'' @ [CHR 0x0A] @
     ''<ns0:Envelope xmlns:ns0='' @ [CHR 0x22] @
     ''http://schemas.xmlsoap.org/soap/envelope/'' @ [CHR 0x22] @ '' xmlns:ns1='' @
     [CHR 0x22] @ ''urn:h0'' @ [CHR 0x22] @ '' xmlns:ns10='' @ [CHR 0x22] @
     ''http://example.org/'' @ [CHR 0x22] @ '' xmlns:ns2='' @ [CHR 0x22] @ ''urn:h1'' @
     [CHR 0x22] @ '' xmlns:ns3='' @ [CHR 0x22] @ ''urn:h2'' @ [CHR 0x22] @
     '' xmlns:ns4='' @ [CHR 0x22] @ ''urn:h3'' @ [CHR 0x22] @ '' xmlns:ns5='' @
     [CHR 0x22] @ ''urn:h4'' @ [CHR 0x22] @ '' xmlns:ns6='' @ [CHR 0x22] @ ''urn:h5'' @
     [CHR 0x22] @ '' xmlns:ns7='' @ [CHR 0x22] @ ''urn:h6'' @ [CHR 0x22] @
     '' xmlns:ns8='' @ [CHR 0x22] @ ''urn:h7'' @ [CHR 0x22] @ '' xmlns:ns9='' @
     [CHR 0x22] @ ''urn:h8'' @ [CHR 0x22] @
     ''><ns0:Header><ns1:P /><ns2:P /><ns3:P /><ns4:P /><ns5:P />'' @
     ''<ns6:P /><ns7:P /><ns8:P /><ns9:P /></ns0:Header><ns0:Body>'' @
     ''<ns10:FuddleMuddle /></ns0:Body></ns0:Envelope>''"

definition ten_decl :: string where
  "ten_decl = ''xmlns:ns10='' @ [CHR 0x22] @ ''http://example.org/'' @ [CHR 0x22]"

definition ten_excised :: string where
  "ten_excised =
     ''<?xml version='' @ [CHR 0x27] @ ''1.0'' @ [CHR 0x27] @ '' encoding='' @
     [CHR 0x27] @ ''UTF-8'' @ [CHR 0x27] @ ''?>'' @ [CHR 0x0A] @
     ''<ns0:Envelope xmlns:ns0='' @ [CHR 0x22] @
     ''http://schemas.xmlsoap.org/soap/envelope/'' @ [CHR 0x22] @ '' xmlns:ns1='' @
     [CHR 0x22] @ ''urn:h0'' @ [CHR 0x22] @ ''  xmlns:ns2='' @ [CHR 0x22] @ ''urn:h1'' @
     [CHR 0x22] @ '' xmlns:ns3='' @ [CHR 0x22] @ ''urn:h2'' @ [CHR 0x22] @
     '' xmlns:ns4='' @ [CHR 0x22] @ ''urn:h3'' @ [CHR 0x22] @ '' xmlns:ns5='' @
     [CHR 0x22] @ ''urn:h4'' @ [CHR 0x22] @ '' xmlns:ns6='' @ [CHR 0x22] @ ''urn:h5'' @
     [CHR 0x22] @ '' xmlns:ns7='' @ [CHR 0x22] @ ''urn:h6'' @ [CHR 0x22] @
     '' xmlns:ns8='' @ [CHR 0x22] @ ''urn:h7'' @ [CHR 0x22] @ '' xmlns:ns9='' @
     [CHR 0x22] @ ''urn:h8'' @ [CHR 0x22] @
     ''><ns0:Header><ns1:P /><ns2:P /><ns3:P /><ns4:P /><ns5:P />'' @
     ''<ns6:P /><ns7:P /><ns8:P /><ns9:P /></ns0:Header><ns0:Body>'' @
     ''<ns10:FuddleMuddle /></ns0:Body></ns0:Envelope>''"

text \<open>
  One header part whose namespace has the placeholder's namespace as a proper prefix, and
  what the serializer and the excision make of the envelope around it.
\<close>

definition colliding_header :: "element list" where
  "colliding_header = [Element (clark ''http://example.org/x'' ''P'') []]"

definition colliding_envelope :: string where
  "colliding_envelope =
     ''<?xml version='' @ [CHR 0x27] @ ''1.0'' @ [CHR 0x27] @ '' encoding='' @
     [CHR 0x27] @ ''UTF-8'' @ [CHR 0x27] @ ''?>'' @ [CHR 0x0A] @
     ''<ns0:Envelope xmlns:ns0='' @ [CHR 0x22] @
     ''http://schemas.xmlsoap.org/soap/envelope/'' @ [CHR 0x22] @ '' xmlns:ns1='' @
     [CHR 0x22] @ ''http://example.org/x'' @ [CHR 0x22] @ '' xmlns:ns2='' @ [CHR 0x22] @
     ''http://example.org/'' @ [CHR 0x22] @
     ''><ns0:Header><ns1:P /></ns0:Header><ns0:Body>'' @
     ''<ns2:FuddleMuddle /></ns0:Body></ns0:Envelope>''"

definition colliding_cut :: string where
  "colliding_cut = ''xmlns:ns1='' @ [CHR 0x22] @ ''http://example.org/x''"

definition colliding_result :: string where
  "colliding_result =
     ''<?xml version='' @ [CHR 0x27] @ ''1.0'' @ [CHR 0x27] @ '' encoding='' @
     [CHR 0x27] @ ''UTF-8'' @ [CHR 0x27] @ ''?>'' @ [CHR 0x0A] @
     ''<ns0:Envelope xmlns:ns0='' @ [CHR 0x22] @
     ''http://schemas.xmlsoap.org/soap/envelope/'' @ [CHR 0x22] @ '' '' @ [CHR 0x22] @
     '' xmlns:ns2='' @ [CHR 0x22] @ ''http://example.org/'' @ [CHR 0x22] @
     ''><ns0:Header><ns1:P /></ns0:Header><ns0:Body>'' @
     ''<ns2:FuddleMuddle /></ns0:Body></ns0:Envelope>''"


text \<open>A morsel as \<^verbatim>\<open>Morsel.__init__\<close> leaves it, and cookies built from it.\<close>

definition empty_morsel :: morsel where
  "empty_morsel = \<lparr>coded_value = [], m_expires = PyStr [], m_path = [], m_comment = PyStr [],
     m_domain = [], m_max_age = PyStr [], m_secure = PyStr [], m_version = PyStr [],
     m_httponly = PyStr []\<rparr>"

definition dot_cookie :: "(string \<times> morsel) list" where
  "dot_cookie = [(''sid'', empty_morsel\<lparr>coded_value := ''abc'', m_domain := ''.Example.com''\<rparr>)]"

definition zero_max_age :: "(string \<times> morsel) list" where
  "zero_max_age = [(''sid'', empty_morsel\<lparr>coded_value := ''abc'', m_max_age := PyInt 0\<rparr>)]"

definition wire_zero_max_age :: "(string \<times> morsel) list" where
  "wire_zero_max_age = [(''sid'', empty_morsel\<lparr>coded_value := ''abc'', m_max_age := PyStr ''0''\<rparr>)]"

definition good_morsel :: morsel where
  "good_morsel = empty_morsel\<lparr>coded_value := ''2''\<rparr>"

definition bad_morsel :: morsel where
  "bad_morsel = empty_morsel\<lparr>coded_value := ''1'', m_expires := PyStr ''next tuesday''\<rparr>"

definition bad_batch :: "(string \<times> morsel) list" where
  "bad_batch = [(''a'', bad_morsel), (''b'', good_morsel)]"

definition mixed_case_cookie :: "(string \<times> morsel) list" where
  "mixed_case_cookie =
     [(''sid'', empty_morsel\<lparr>coded_value := ''abc'', m_domain := ''Example.com''\<rparr>)]"

definition mixed_case_removal :: "(string \<times> morsel) list" where
  "mixed_case_removal =
     [(''sid'', empty_morsel\<lparr>coded_value := ''abc'', m_domain := ''Example.com'',
         m_max_age := PyInt 0\<rparr>)]"

text \<open>The pairing of a cookie's flags with its attributes.\<close>

definition pairing :: "cookie \<Rightarrow> bool" where
  "pairing c =
     ((ck_domain_specified c \<longleftrightarrow> ck_domain c \<noteq> []) \<and>
      (ck_path_specified c \<longleftrightarrow> ck_path c \<noteq> []) \<and>
      (ck_port_specified c \<longleftrightarrow> truthy (ck_port c)) \<and>
      (ck_domain_initial_dot c \<longleftrightarrow> startswith (ck_domain c) ''.''))"

definition same_flags :: "std_attr \<Rightarrow> std_attr \<Rightarrow> bool" where
  "same_flags sa sa' =
     (sa_port sa' = sa_port sa \<and> sa_port_specified sa' = sa_port_specified sa \<and>
      sa_domain_specified sa' = sa_domain_specified sa \<and>
      sa_path_specified sa' = sa_path_specified sa \<and>
      sa_domain_initial_dot sa' = sa_domain_initial_dot sa \<and> sa_name sa' = sa_name sa)"

text \<open>Responses without headers, one truthy and one falsy.\<close>

definition bare_response :: response where
  "bare_response = \<lparr>resp_ok = True, resp_headers = (\<lambda>k. Inr None), resp_text = []\<rparr>"

text \<open>
  A response whose \<^verbatim>\<open>Set-Cookie\<close> header carries a \<^verbatim>\<open>Max-Age\<close>, what
  \<^verbatim>\<open>SimpleCookie\<close> parses from that header, and a response without the header whose
  header mapping raises KeyError for a missing key.
\<close>

definition max_age_cookie :: "(string \<times> morsel) list" where
  "max_age_cookie =
     [(''sid'', empty_morsel\<lparr>coded_value := ''abc'', m_max_age := PyStr ''3600''\<rparr>)]"

definition max_age_response :: response where
  "max_age_response =
     \<lparr>resp_ok = True,
      resp_headers = (\<lambda>k. if k = ''set-cookie'' then Inr (Some ''sid=abc; Max-Age=3600'')
                           else Inr None),
      resp_text = []\<rparr>"

definition max_age_load :: "string \<Rightarrow> error + (string \<times> morsel) list" where
  "max_age_load s = (if s = ''sid=abc; Max-Age=3600'' then Inr max_age_cookie else Inr [])"

definition dict_response :: response where
  "dict_response =
     \<lparr>resp_ok = True, resp_headers = (\<lambda>k. Inl KeyError), resp_text = []\<rparr>"

definition refused_response :: response where
  "refused_response = \<lparr>resp_ok = False, resp_headers = (\<lambda>k. Inr None), resp_text = []\<rparr>"

text \<open>A response with a \<^verbatim>\<open>Set-Cookie\<close> header.\<close>

definition cookie_response :: response where
  "cookie_response =
     \<lparr>resp_ok = True,
      resp_headers = (\<lambda>k. if k = ''set-cookie'' then Inr (Some ''sid=abc; Domain=.Example.com'')
                           else Inr None),
      resp_text = []\<rparr>"

section \<open>String replacement\<close>

lemma replace_scan_absent:
  "old \<noteq> [] \<Longrightarrow> \<not> sublist old s \<Longrightarrow> replace_scan old new s = s"
proof (induction s)
  case Nil
  then show ?case by simp
next
  case (Cons c cs)
  have "\<not> startswith (c # cs) old"
  proof
    assume "startswith (c # cs) old"
    then have "prefix old (c # cs)"
      by (metis startswith_def take_is_prefix)
    then show False using Cons.prems(2) by (simp add: sublist_Cons_right)
  qed
  moreover have "\<not> sublist old cs"
    using Cons.prems(2) by (simp add: sublist_Cons_right)
  ultimately show ?case using Cons by simp
qed

lemma replace_scan_leading:
  "old \<noteq> [] \<Longrightarrow> replace_scan old new (old @ s) = new @ replace_scan old new s"
  by (cases old) (simp_all add: startswith_def)

lemma replace_absent: "\<not> sublist old s \<Longrightarrow> replace s old new = s"
  by (cases "old = []") (simp_all add: replace_def replace_scan_absent)

lemma PREFIX_nonempty: "PREFIX \<noteq> []"
  by (simp add: PREFIX_def)

lemma replace_leading:
  "\<not> sublist PREFIX G \<Longrightarrow> replace (PREFIX @ G) PREFIX [] = G"
  using PREFIX_nonempty by (simp add: replace_def replace_scan_leading replace_scan_absent)

text \<open>The first occurrence that \<^verbatim>\<open>find\<close> reports, and what the scans do with it.\<close>

lemma startswith_append_drop:
  assumes "startswith (drop q s) (X @ Y)"
  shows "startswith (drop (q + length X) s) Y"
proof -
  have "take (length X + length Y) (drop q s) = X @ Y"
    using assms by (simp add: startswith_def)
  then have "drop (length X) (take (length X + length Y) (drop q s)) = Y"
    by simp
  then have "take (length Y) (drop (length X) (drop q s)) = Y"
    by (simp add: drop_take)
  then show ?thesis
    by (simp add: startswith_def add.commute)
qed

lemma startswith_nonempty: "startswith s sub \<Longrightarrow> sub \<noteq> [] \<Longrightarrow> s \<noteq> []"
  by (auto simp: startswith_def)

lemma find_from_first:
  "sub \<noteq> [] \<Longrightarrow> find_from n sub s = int m \<Longrightarrow>
   n \<le> m \<and> (\<forall>q < m - n. \<not> startswith (drop q s) sub) \<and> startswith (drop (m - n) s) sub"
proof (induction s arbitrary: n)
  case Nil
  then show ?case by simp
next
  case (Cons c cs)
  show ?case
  proof (cases "startswith (c # cs) sub")
    case True
    with Cons.prems show ?thesis by simp
  next
    case False
    with Cons.prems have f: "find_from (Suc n) sub cs = int m" by simp
    from Cons.IH [OF Cons.prems(1) f]
    have le: "Suc n \<le> m"
      and no: "\<forall>q < m - Suc n. \<not> startswith (drop q cs) sub"
      and hit: "startswith (drop (m - Suc n) cs) sub"
      by auto
    have "\<not> startswith (drop q (c # cs)) sub" if "q < m - n" for q
    proof (cases q)
      case 0
      then show ?thesis using False by simp
    next
      case (Suc q')
      with that have "q' < m - Suc n" by simp
      with no Suc show ?thesis by simp
    qed
    moreover have "drop (m - n) (c # cs) = drop (m - Suc n) cs"
    proof -
      have "m - n = Suc (m - Suc n)" using le by arith
      then show ?thesis by simp
    qed
    ultimately show ?thesis using le hit by auto
  qed
qed

lemma find_first:
  assumes "sub \<noteq> []" and "find s sub = int k"
  shows "(\<forall>q < k. \<not> startswith (drop q s) sub) \<and> startswith (drop k s) sub"
  using find_from_first [OF assms(1), of 0 s k] assms(2) by (simp add: find_def)

lemma replace_scan_first:
  "old \<noteq> [] \<Longrightarrow> \<forall>q < k. \<not> startswith (drop q s) old \<Longrightarrow> startswith (drop k s) old \<Longrightarrow>
   replace_scan old new s = take k s @ new @ replace_scan old new (drop (k + length old) s)"
proof (induction k arbitrary: s)
  case 0
  then have "s \<noteq> []" using startswith_nonempty by fastforce
  then obtain c cs where s: "s = c # cs" by (cases s) auto
  have "drop (length old) (c # cs) = drop (length old - 1) cs"
    using 0(1) by (cases old) auto
  with 0 s show ?case by simp
next
  case (Suc k)
  have "drop (Suc k) s \<noteq> []" using Suc.prems(1,3) startswith_nonempty by blast
  then obtain c cs where s: "s = c # cs" by (cases s) auto
  have n0: "\<not> startswith (c # cs) old" using Suc.prems(2) s by force
  have "\<forall>q < k. \<not> startswith (drop q cs) old"
  proof (intro allI impI)
    fix q assume "q < k"
    then have "\<not> startswith (drop (Suc q) s) old" using Suc.prems(2) by simp
    then show "\<not> startswith (drop q cs) old" by (simp add: s)
  qed
  moreover have "startswith (drop k cs) old" using Suc.prems(3) s by simp
  ultimately have "replace_scan old new cs =
      take k cs @ new @ replace_scan old new (drop (k + length old) cs)"
    using Suc.IH [OF Suc.prems(1)] by blast
  with n0 s show ?case by simp
qed

lemma rfind_from_hit:
  "ys \<noteq> [] \<Longrightarrow> startswith ys sub \<Longrightarrow>
   rfind_from n h sub (xs @ ys) =
     rfind_from (Suc (n + length xs)) (int (n + length xs)) sub (tl ys)"
proof (induction xs arbitrary: n h)
  case Nil
  then show ?case by (cases ys) auto
next
  case (Cons x xs)
  then show ?case by (simp add: ac_simps)
qed

lemma rfind_declaration:
  assumes "length p = 3"
  shows "rfind_from 0 (- 1) ''xmlns:'' (A @ ''xmlns:'' @ p @ ''='' @ [CHR 0x22]) = int (length A)"
proof -
  obtain a b c where p: "p = [a, b, c]"
    using assms by (cases p; cases "tl p"; cases "tl (tl p)") auto
  have "startswith (''xmlns:'' @ p @ ''='' @ [CHR 0x22]) ''xmlns:''"
    by (simp add: startswith_def)
  from rfind_from_hit [OF _ this, of 0 "- 1" A]
  show ?thesis by (simp add: p startswith_def)
qed

section \<open>The SOAP encoder on text\<close>

text \<open>
  Without header parts the serializer allocates \<open>ns0\<close> for the SOAP namespace and
  \<open>ns1\<close> for the placeholder's, and every step of the splice is a computation on
  one fixed string.
\<close>

lemma tostring_placeholder:
  "tostring (envelope_of None (Element (clark DUMMY_NAMESPACE ''FuddleMuddle'') [])) =
    Inr placeholder_envelope"
  by code_simp

lemma find_dummy: "find placeholder_envelope DUMMY_NAMESPACE = 118"
  by code_simp

lemma rfind_xmlns: "rfind placeholder_envelope ''xmlns:'' 0 118 = 107"
  by code_simp

lemma cut1: "slice placeholder_envelope 107 (118 + int (length DUMMY_NAMESPACE) + 1) = dummy_decl"
  by code_simp

lemma cut2: "''<'' @ slice dummy_decl 6 9 @ '':FuddleMuddle />'' = placeholder"
  by code_simp

lemma excise: "replace placeholder_envelope dummy_decl [] = envelope_open @ placeholder @ envelope_close"
  by code_simp

lemma splice_t: "replace (envelope_open @ placeholder @ envelope_close) placeholder t =
   envelope_open @ t @ envelope_close"
  by code_simp

lemma splice_placeholder:
  "make_soap_enveloped_saml_thingy (Text F) None =
     Inr (envelope_open @ replace F PREFIX [] @ envelope_close)"
  by (simp only: make_soap_enveloped_saml_thingy_def thingy.case Let_def tostring_placeholder
      ebind_def sum.case find_dummy rfind_xmlns cut1 cut2 excise splice_t)

lemma no_dummy_open: "\<not> sublist DUMMY_NAMESPACE envelope_open"
  by code_simp

lemma no_dummy_close: "\<not> sublist DUMMY_NAMESPACE envelope_close"
  by code_simp

lemma no_prefix_a: "\<not> sublist PREFIX ''<a/>''"
  by code_simp

lemma soap_splice_no_header:
  assumes "\<not> sublist PREFIX G" and "F = G \<or> F = PREFIX @ G"
  shows "make_soap_enveloped_saml_thingy (Text F) None = Inr (envelope_open @ G @ envelope_close)
       \<and> sublist G (envelope_open @ G @ envelope_close)
       \<and> \<not> sublist DUMMY_NAMESPACE envelope_open
       \<and> \<not> sublist DUMMY_NAMESPACE envelope_close"
proof -
  have "replace F PREFIX [] = G"
    using assms by (auto simp: replace_absent replace_leading)
  then show ?thesis
    by (simp add: splice_placeholder no_dummy_open no_dummy_close sublist_appendI)
qed

text \<open>
  The steps of the splice on any serialized envelope that holds the declaration of the
  placeholder's namespace under a prefix of three characters.
\<close>

lemma splice_steps:
  assumes p3: "length p = 3"
    and first: "find (A @ dummy_declaration p @ B @ placeholder_tag p @ C) DUMMY_NAMESPACE =
                  int (length A) + 11"
    and once_decl: "\<not> sublist (dummy_declaration p) (B @ placeholder_tag p @ C)"
    and first_tag: "find (A @ B @ placeholder_tag p @ C) (placeholder_tag p) =
                      int (length A + length B)"
    and once_tag: "\<not> sublist (placeholder_tag p) C"
  shows "rfind (A @ dummy_declaration p @ B @ placeholder_tag p @ C) ''xmlns:'' 0
           (int (length A) + 11) = int (length A)"
    and "slice (A @ dummy_declaration p @ B @ placeholder_tag p @ C) (int (length A))
           (int (length A) + 11 + int (length DUMMY_NAMESPACE) + 1) = dummy_declaration p"
    and "''<'' @ slice (dummy_declaration p) 6 9 @ '':FuddleMuddle />'' = placeholder_tag p"
    and "replace (A @ dummy_declaration p @ B @ placeholder_tag p @ C) (dummy_declaration p) [] =
           A @ B @ placeholder_tag p @ C"
    and "replace (A @ B @ placeholder_tag p @ C) (placeholder_tag p) G = A @ B @ G @ C"
    and "\<not> sublist (dummy_declaration p) A"
proof -
  let ?str = "A @ dummy_declaration p @ B @ placeholder_tag p @ C"
  let ?dd = "dummy_declaration p"
  let ?tag = "placeholder_tag p"
  obtain a b c where p: "p = [a, b, c]"
    using p3 by (cases p; cases "tl p"; cases "tl (tl p)") auto
  have ldd: "length ?dd = 31"
    by (simp add: dummy_declaration_def DUMMY_NAMESPACE_def p)
  have dd_ne: "?dd \<noteq> []" and tag_ne: "?tag \<noteq> []" and D_ne: "DUMMY_NAMESPACE \<noteq> []"
    by (simp_all add: dummy_declaration_def placeholder_tag_def DUMMY_NAMESPACE_def)
  have dd_split: "?dd = (''xmlns:'' @ p @ ''='' @ [CHR 0x22]) @ (DUMMY_NAMESPACE @ [CHR 0x22])"
    by (simp add: dummy_declaration_def)
  have tk: "take (length A + 11) ?str = A @ ''xmlns:'' @ p @ ''='' @ [CHR 0x22]"
    by (simp add: dummy_declaration_def p)
  show "rfind ?str ''xmlns:'' 0 (int (length A) + 11) = int (length A)"
  proof -
    have "clip (length ?str) (int (length A) + 11) = length A + 11"
      by (simp add: clip_def ldd)
    moreover have "clip (length ?str) 0 = 0" by (simp add: clip_def)
    ultimately have "rfind ?str ''xmlns:'' 0 (int (length A) + 11) =
        rfind_from 0 (- 1) ''xmlns:'' (drop 0 (take (length A + 11) ?str))"
      by (simp only: rfind_def Let_def) simp
    also have "\<dots> = rfind_from 0 (- 1) ''xmlns:'' (A @ ''xmlns:'' @ p @ ''='' @ [CHR 0x22])"
      by (simp only: tk drop_0)
    also have "\<dots> = int (length A)"
      by (rule rfind_declaration [OF p3])
    finally show ?thesis .
  qed
  show "slice ?str (int (length A)) (int (length A) + 11 + int (length DUMMY_NAMESPACE) + 1) = ?dd"
  proof -
    have "clip (length ?str) (int (length A)) = length A"
      by (simp add: clip_def)
    moreover have "clip (length ?str) (int (length A) + 11 + int (length DUMMY_NAMESPACE) + 1) =
        length A + length ?dd"
      by (simp add: clip_def ldd DUMMY_NAMESPACE_def)
    ultimately show ?thesis by (simp add: slice_def)
  qed
  show "''<'' @ slice ?dd 6 9 @ '':FuddleMuddle />'' = ?tag"
    by (simp add: slice_def clip_def dummy_declaration_def placeholder_tag_def p
        DUMMY_NAMESPACE_def)
  have before: "\<not> startswith (drop q ?str) ?dd" if "q < length A" for q
  proof
    define s where "s = ?str"
    define pre where "pre = ''xmlns:'' @ p @ ''='' @ [CHR 0x22]"
    define rest where "rest = DUMMY_NAMESPACE @ [CHR 0x22]"
    have lpre: "length pre = 11" by (simp add: pre_def p)
    have dd: "?dd = pre @ rest" by (simp add: dummy_declaration_def pre_def rest_def)
    assume "startswith (drop q ?str) ?dd"
    then have "startswith (drop q s) (pre @ rest)" by (simp only: s_def dd)
    then have "startswith (drop (q + length pre) s) rest" by (rule startswith_append_drop)
    then have "take (length rest) (drop (q + 11) s) = rest"
      by (simp add: startswith_def lpre)
    then have "take (length DUMMY_NAMESPACE) (take (length rest) (drop (q + 11) s)) =
        take (length DUMMY_NAMESPACE) rest"
      by simp
    then have "startswith (drop (q + 11) s) DUMMY_NAMESPACE"
      by (simp add: startswith_def rest_def min_def)
    moreover have "\<not> startswith (drop (q + 11) s) DUMMY_NAMESPACE"
    proof -
      have "find ?str DUMMY_NAMESPACE = int (length A + 11)" using first by simp
      from find_first [OF D_ne this] that show ?thesis by (simp add: s_def)
    qed
    ultimately show False by simp
  qed
  show "\<not> sublist ?dd A"
  proof
    assume "sublist ?dd A"
    then obtain xs ys where A: "A = xs @ ?dd @ ys" by (auto simp: sublist_def)
    then have "length xs < length A" by (simp add: ldd)
    moreover have "startswith (drop (length xs) ?str) ?dd"
      by (subst A) (simp add: startswith_def)
    ultimately show False using before by blast
  qed
  show "replace ?str ?dd [] = A @ B @ ?tag @ C"
  proof -
    have "startswith (drop (length A) ?str) ?dd" by (simp add: startswith_def)
    with before have "replace_scan ?dd [] ?str =
        take (length A) ?str @ [] @ replace_scan ?dd [] (drop (length A + length ?dd) ?str)"
      using replace_scan_first [OF dd_ne, of "length A" ?str "[]"] by blast
    also have "\<dots> = A @ replace_scan ?dd [] (B @ ?tag @ C)" by simp
    also have "\<dots> = A @ B @ ?tag @ C"
      using replace_scan_absent [OF dd_ne once_decl] by simp
    finally show ?thesis using dd_ne by (simp add: replace_def)
  qed
  show "replace (A @ B @ ?tag @ C) ?tag G = A @ B @ G @ C"
  proof -
    let ?s = "A @ B @ ?tag @ C"
    from find_first [OF tag_ne first_tag]
    have "\<forall>q < length A + length B. \<not> startswith (drop q ?s) ?tag"
      and "startswith (drop (length A + length B) ?s) ?tag"
      by auto
    then have "replace_scan ?tag G ?s =
        take (length A + length B) ?s @ G @
        replace_scan ?tag G (drop (length A + length B + length ?tag) ?s)"
      using replace_scan_first [OF tag_ne, of "length A + length B" ?s G] by blast
    also have "\<dots> = A @ B @ G @ replace_scan ?tag G C" by simp
    also have "\<dots> = A @ B @ G @ C"
      using replace_scan_absent [OF tag_ne once_tag] by simp
    finally show ?thesis using tag_ne by (simp add: replace_def)
  qed
qed

lemma bare_tostring:
  "tostring (envelope_of None (Element (clark DUMMY_NAMESPACE ''FuddleMuddle'') [])) =
     Inr (bare_A @ dummy_declaration ''ns1'' @ bare_B @ placeholder_tag ''ns1'' @ envelope_close)"
  by code_simp

lemma bare_first:
  "find (bare_A @ dummy_declaration ''ns1'' @ bare_B @ placeholder_tag ''ns1'' @ envelope_close) DUMMY_NAMESPACE =
     int (length bare_A) + 11"
  by code_simp

lemma bare_once_decl:
  "\<not> sublist (dummy_declaration ''ns1'') (bare_B @ placeholder_tag ''ns1'' @ envelope_close)"
  by code_simp

lemma bare_first_tag:
  "find (bare_A @ bare_B @ placeholder_tag ''ns1'' @ envelope_close) (placeholder_tag ''ns1'') =
     int (length bare_A + length bare_B)"
  by code_simp

lemma bare_once_tag: "\<not> sublist (placeholder_tag ''ns1'') envelope_close"
  by code_simp

lemma one_tostring:
  "tostring (envelope_of (Some one_headers) (Element (clark DUMMY_NAMESPACE ''FuddleMuddle'') [])) =
     Inr (one_A @ dummy_declaration ''ns2'' @ one_B @ placeholder_tag ''ns2'' @ envelope_close)"
  by code_simp

lemma one_first:
  "find (one_A @ dummy_declaration ''ns2'' @ one_B @ placeholder_tag ''ns2'' @ envelope_close) DUMMY_NAMESPACE =
     int (length one_A) + 11"
  by code_simp

lemma one_once_decl:
  "\<not> sublist (dummy_declaration ''ns2'') (one_B @ placeholder_tag ''ns2'' @ envelope_close)"
  by code_simp

lemma one_first_tag:
  "find (one_A @ one_B @ placeholder_tag ''ns2'' @ envelope_close) (placeholder_tag ''ns2'') =
     int (length one_A + length one_B)"
  by code_simp

lemma one_once_tag: "\<not> sublist (placeholder_tag ''ns2'') envelope_close"
  by code_simp

lemma eight_tostring:
  "tostring (envelope_of (Some eight_headers) (Element (clark DUMMY_NAMESPACE ''FuddleMuddle'') [])) =
     Inr (eight_A @ dummy_declaration ''ns9'' @ eight_B @ placeholder_tag ''ns9'' @ envelope_close)"
  by code_simp

lemma eight_first:
  "find (eight_A @ dummy_declaration ''ns9'' @ eight_B @ placeholder_tag ''ns9'' @ envelope_close) DUMMY_NAMESPACE =
     int (length eight_A) + 11"
  by code_simp

lemma eight_once_decl:
  "\<not> sublist (dummy_declaration ''ns9'') (eight_B @ placeholder_tag ''ns9'' @ envelope_close)"
  by code_simp

lemma eight_first_tag:
  "find (eight_A @ eight_B @ placeholder_tag ''ns9'' @ envelope_close) (placeholder_tag ''ns9'') =
     int (length eight_A + length eight_B)"
  by code_simp

lemma eight_once_tag: "\<not> sublist (placeholder_tag ''ns9'') envelope_close"
  by code_simp

text \<open>
  Claim C1 says that the envelope made from a text fragment \<open>F\<close> always contains
  \<open>F\<close> verbatim.  It does not when \<open>F\<close> starts with the XML declaration: the encoder
  removes the declaration before it splices.  For the document
  \<^verbatim>\<open><?xml version="1.0" encoding="UTF-8"?><a/>\<close> the envelope holds \<^verbatim>\<open><a/>\<close> only.
\<close>

theorem soap_splice_not_verbatim:
  "make_soap_enveloped_saml_thingy (Text (PREFIX @ ''<a/>'')) None =
     Inr (envelope_open @ ''<a/>'' @ envelope_close)
   \<and> \<not> sublist (PREFIX @ ''<a/>'') (envelope_open @ ''<a/>'' @ envelope_close)"
proof -
  have "\<not> sublist (PREFIX @ ''<a/>'') (envelope_open @ ''<a/>'' @ envelope_close)"
    by code_simp
  moreover have "replace (PREFIX @ ''<a/>'') PREFIX [] = ''<a/>''"
    by code_simp
  ultimately show ?thesis by (simp add: splice_placeholder)
qed

text \<open>
  Claim C1, amended.  Take any header parts, and any text \<open>F\<close> that is a fragment
  \<open>G\<close> free of the XML declaration, or the declaration followed by such a \<open>G\<close>.
  Let the serializer write the envelope as \<open>A\<close>, the declaration of the placeholder's
  namespace under a prefix \<open>p\<close> of three characters (\<open>ns0\<close> to \<open>ns9\<close>), \<open>B\<close>, the
  placeholder under \<open>p\<close>, and \<open>C\<close>, where the namespace first occurs in its
  declaration, the declaration occurs once and the placeholder occurs once.  Then the
  encoder returns \<open>A\<close>, \<open>B\<close>, \<open>G\<close> and \<open>C\<close>: \<open>G\<close> occurs verbatim in the
  envelope, and the declaration occurs in none of \<open>A\<close>, \<open>B\<close> and \<open>C\<close>.  This holds
  however many header parts there are, as long as the prefix has three characters.
\<close>

theorem soap_splice_text:
  assumes ser: "tostring (envelope_of header_parts
                  (Element (clark DUMMY_NAMESPACE ''FuddleMuddle'') [])) =
                Inr (A @ dummy_declaration p @ B @ placeholder_tag p @ C)"
    and p3: "length p = 3"
    and first: "find (A @ dummy_declaration p @ B @ placeholder_tag p @ C) DUMMY_NAMESPACE =
                  int (length A) + 11"
    and once_decl: "\<not> sublist (dummy_declaration p) (B @ placeholder_tag p @ C)"
    and first_tag: "find (A @ B @ placeholder_tag p @ C) (placeholder_tag p) =
                      int (length A + length B)"
    and once_tag: "\<not> sublist (placeholder_tag p) C"
    and G: "\<not> sublist PREFIX G" and F: "F = G \<or> F = PREFIX @ G"
  shows "make_soap_enveloped_saml_thingy (Text F) header_parts = Inr (A @ B @ G @ C) \<and>
         sublist G (A @ B @ G @ C) \<and>
         \<not> sublist (dummy_declaration p) A \<and> \<not> sublist (dummy_declaration p) B \<and>
         \<not> sublist (dummy_declaration p) C"
proof -
  note steps = splice_steps [OF p3 first once_decl first_tag once_tag]
  have t: "replace F PREFIX [] = G"
    using G F by (auto simp: replace_absent replace_leading)
  have "make_soap_enveloped_saml_thingy (Text F) header_parts = Inr (A @ B @ G @ C)"
    by (simp only: make_soap_enveloped_saml_thingy_def thingy.case Let_def ser ebind_def
        sum.case first steps(1-5) t)
  moreover have "sublist G (A @ B @ G @ C)"
    by (metis sublist_appendI append.assoc)
  moreover have "\<not> sublist (dummy_declaration p) B" "\<not> sublist (dummy_declaration p) C"
    using once_decl by (auto simp: sublist_append)
  ultimately show ?thesis using steps(6) by simp
qed

theorem soap_splice_text_witness:
  "make_soap_enveloped_saml_thingy (Text (PREFIX @ ''<a/>'')) None =
     Inr (bare_A @ bare_B @ ''<a/>'' @ envelope_close) \<and>
   make_soap_enveloped_saml_thingy (Text ''<a/>'') (Some one_headers) =
     Inr (one_A @ one_B @ ''<a/>'' @ envelope_close) \<and>
   make_soap_enveloped_saml_thingy (Text ''<a/>'') (Some eight_headers) =
     Inr (eight_A @ eight_B @ ''<a/>'' @ envelope_close) \<and>
   sublist ''<a/>'' (eight_A @ eight_B @ ''<a/>'' @ envelope_close)"
  using
    soap_splice_text [OF bare_tostring _ bare_first bare_once_decl bare_first_tag bare_once_tag
      no_prefix_a, of "PREFIX @ ''<a/>''"]
    soap_splice_text [OF one_tostring _ one_first one_once_decl one_first_tag one_once_tag
      no_prefix_a, of "''<a/>''"]
    soap_splice_text [OF eight_tostring _ eight_first eight_once_decl eight_first_tag
      eight_once_tag no_prefix_a, of "''<a/>''"]
  by simp

text \<open>
  Claim C6 says that only a leading XML declaration is stripped.  The encoder calls
  \<^verbatim>\<open>thingy.replace(PREFIX, "")\<close>, which removes the declaration wherever it occurs:
  from \<^verbatim>\<open><a><!--<?xml version="1.0" encoding="UTF-8"?>--></a>\<close> it splices
  \<^verbatim>\<open><a><!----></a>\<close>.
\<close>

theorem soap_strips_inner_declaration:
  "make_soap_enveloped_saml_thingy (Text comment_fragment) None =
     Inr (envelope_open @ ''<a><!----></a>'' @ envelope_close)"
proof -
  have "replace comment_fragment PREFIX [] = ''<a><!----></a>''"
    by code_simp
  then show ?thesis by (simp add: splice_placeholder)
qed

text \<open>
  With nine header namespaces before it, the placeholder's namespace gets the prefix
  \<open>ns10\<close>.  The slice \<^verbatim>\<open>cut1[6:9]\<close> then reads \<open>ns1\<close>, the placeholder tag built
  from it does not occur in the envelope, and the message is not spliced in at all: the
  result is the same for every message, with the placeholder still in the body.
\<close>

lemma ten_tostring:
  "tostring (envelope_of (Some nine_headers) (Element (clark DUMMY_NAMESPACE ''FuddleMuddle'') [])) =
     Inr ten_envelope"
  by code_simp

lemma ten_find: "find ten_envelope DUMMY_NAMESPACE = 138"
  by code_simp

lemma ten_rfind: "rfind ten_envelope ''xmlns:'' 0 138 = 126"
  by code_simp

lemma ten_cut1: "slice ten_envelope 126 (138 + int (length DUMMY_NAMESPACE) + 1) = ten_decl"
  by code_simp

lemma ten_cut2: "''<'' @ slice ten_decl 6 9 @ '':FuddleMuddle />'' = ''<ns1:FuddleMuddle />''"
  by code_simp

lemma ten_excise: "replace ten_envelope ten_decl [] = ten_excised"
  by code_simp

lemma ten_no_placeholder: "\<not> sublist ''<ns1:FuddleMuddle />'' ten_excised"
  by code_simp

lemma ten_prefixes_no_splice:
  "make_soap_enveloped_saml_thingy (Text F) (Some nine_headers) = Inr ten_excised"
  by (simp only: make_soap_enveloped_saml_thingy_def thingy.case Let_def ten_tostring
      ebind_def sum.case ten_find ten_rfind ten_cut1 ten_cut2 ten_excise
      replace_absent [OF ten_no_placeholder])

text \<open>
  With a header part in the namespace \<^verbatim>\<open>http://example.org/x\<close>, the first occurrence of
  \<^verbatim>\<open>http://example.org/\<close> in the envelope lies in the declaration of the header's
  namespace, not of the placeholder's.  The encoder then cuts that declaration one character
  short of its closing quote, builds the placeholder tag from the header's prefix, finds no
  such tag, and returns a text that is not well-formed and does not contain the message.
\<close>

lemma colliding_tostring:
  "tostring (envelope_of (Some colliding_header)
     (Element (clark DUMMY_NAMESPACE ''FuddleMuddle'') [])) = Inr colliding_envelope"
  by code_simp

lemma colliding_find: "find colliding_envelope DUMMY_NAMESPACE = 118"
  by code_simp

lemma colliding_rfind: "rfind colliding_envelope ''xmlns:'' 0 118 = 107"
  by code_simp

lemma colliding_cut1:
  "slice colliding_envelope 107 (118 + int (length DUMMY_NAMESPACE) + 1) = colliding_cut"
  by code_simp

lemma colliding_cut2:
  "''<'' @ slice colliding_cut 6 9 @ '':FuddleMuddle />'' = ''<ns1:FuddleMuddle />''"
  by code_simp

lemma colliding_excise: "replace colliding_envelope colliding_cut [] = colliding_result"
  by code_simp

lemma colliding_no_placeholder: "\<not> sublist ''<ns1:FuddleMuddle />'' colliding_result"
  by code_simp

lemma header_namespace_collision:
  "make_soap_enveloped_saml_thingy (Text F) (Some colliding_header) = Inr colliding_result"
  by (simp only: make_soap_enveloped_saml_thingy_def thingy.case Let_def colliding_tostring
      ebind_def sum.case colliding_find colliding_rfind colliding_cut1 colliding_cut2
      colliding_excise replace_absent [OF colliding_no_placeholder])

section \<open>The redirect binding\<close>

lemma redirect_args_cases:
  "typ \<noteq> ''RelayState'' \<Longrightarrow>
   redirect_args enc message relay_state typ =
     (if relay_state \<noteq> []
      then [(typ, enc (message_text message)), (''RelayState'', relay_state)]
      else [(typ, enc (message_text message))])"
  by (simp add: redirect_args_def Let_def)

lemma items_one:
  assumes "\<And>d :: (string \<times> string) list. set (items d) = set d"
    and "\<And>d :: (string \<times> string) list. length (items d) = length d"
  shows "items [x] = [x]"
proof -
  have "length (items [x]) = 1" using assms(2) [of "[x]"] by simp
  then obtain y where y: "items [x] = [y]"
    by (cases "items [x]") auto
  with assms(1) [of "[x]"] show ?thesis by simp
qed

lemma items_two:
  assumes "\<And>d :: (string \<times> string) list. set (items d) = set d"
    and "\<And>d :: (string \<times> string) list. length (items d) = length d"
    and "x \<noteq> y"
  shows "items [x, y] = [x, y] \<or> items [x, y] = [y, x]"
proof -
  have "length (items [x, y]) = 2" using assms(2) [of "[x, y]"] by simp
  then obtain u v where uv: "items [x, y] = [u, v]"
    by (cases "items [x, y]"; cases "tl (items [x, y])") auto
  with assms(1) [of "[x, y]"] have "{u, v} = {x, y}" by simp
  with assms(3) uv show ?thesis by (auto simp: doubleton_eq_iff)
qed

lemma quote_plus_RelayState: "quote_plus ''RelayState'' = ''RelayState''"
  by code_simp

lemma quote_plus_examples:
  "quote_plus ''SAMLRequest'' = ''SAMLRequest''" "quote_plus ''SAMLart'' = ''SAMLart''"
  "quote_plus ''M'' = ''M''" "quote_plus ''RS 1'' = ''RS+1''"
  by code_simp+

lemma query_example: "urlparse_query ''https://sp.example/acs?x=1'' = Inr ''x=1''"
  by code_simp

lemma query_example_none: "urlparse_query ''https://sp.example/acs'' = Inr []"
  by code_simp

text \<open>
  Claim C7.  For a parameter name other than \<^verbatim>\<open>RelayState\<close>, a destination that
  \<^verbatim>\<open>urlparse\<close> accepts and any order in which the dictionary yields its entries,
  \<^verbatim>\<open>http_redirect_message\<close> returns one \<^verbatim>\<open>Location\<close> header and a body that is one
  empty string.  The header is the destination, then \<^verbatim>\<open>&\<close> if the destination has a
  query and \<^verbatim>\<open>?\<close> if not, then the percent-encoded parameters joined by \<^verbatim>\<open>&\<close>: the
  message parameter alone when the relay state is empty, and otherwise the message
  parameter and \<^verbatim>\<open>RelayState\<close>, in one order or the other.
\<close>

theorem redirect_query_join:
  assumes "typ \<noteq> ''RelayState''" and "urlparse_query location = Inr query"
    and "\<And>d :: (string \<times> string) list. set (items d) = set d"
    and "\<And>d :: (string \<times> string) list. length (items d) = length d"
  shows "http_redirect_message items enc message location relay_state typ =
           Inr ([(''Location'',
                  location @ (if query \<noteq> [] then ''&'' else ''?'') @
                  urlencode (items (redirect_args enc message relay_state typ)))],
                [[]])
       \<and> (urlencode (items (redirect_args enc message relay_state typ)) \<in>
            (if relay_state = []
             then {quote_plus typ @ ''='' @ quote_plus (enc (message_text message))}
             else {quote_plus typ @ ''='' @ quote_plus (enc (message_text message)) @
                     ''&RelayState='' @ quote_plus relay_state,
                   ''RelayState='' @ quote_plus relay_state @ ''&'' @
                     quote_plus typ @ ''='' @ quote_plus (enc (message_text message))}))
       \<and> (''RelayState'' \<in> fst ` set (redirect_args enc message relay_state typ)
            \<longleftrightarrow> relay_state \<noteq> [])"
proof -
  let ?a = "(typ, enc (message_text message))"
  let ?r = "(''RelayState'', relay_state)"
  have keys: "''RelayState'' \<in> fst ` set (redirect_args enc message relay_state typ)
      \<longleftrightarrow> relay_state \<noteq> []"
    using assms(1) by (auto simp: redirect_args_cases)
  have msg: "http_redirect_message items enc message location relay_state typ =
           Inr ([(''Location'',
                  location @ (if query \<noteq> [] then ''&'' else ''?'') @
                  urlencode (items (redirect_args enc message relay_state typ)))],
                [[]])"
    using assms(2) by (simp add: http_redirect_message_def ebind_def Let_def)
  have enc: "urlencode (items (redirect_args enc message relay_state typ)) \<in>
            (if relay_state = []
             then {quote_plus typ @ ''='' @ quote_plus (enc (message_text message))}
             else {quote_plus typ @ ''='' @ quote_plus (enc (message_text message)) @
                     ''&RelayState='' @ quote_plus relay_state,
                   ''RelayState='' @ quote_plus relay_state @ ''&'' @
                     quote_plus typ @ ''='' @ quote_plus (enc (message_text message))})"
  proof (cases "relay_state = []")
    case True
    then show ?thesis
      using items_one [OF assms(3,4), of ?a] assms(1)
      by (simp add: redirect_args_cases urlencode_def)
  next
    case False
    have "?a \<noteq> ?r" using assms(1) by simp
    from items_two [OF assms(3,4) this] False assms(1) show ?thesis
      by (auto simp: redirect_args_cases urlencode_def quote_plus_RelayState)
  qed
  from msg enc keys show ?thesis by blast
qed

theorem redirect_query_join_witness:
  "http_redirect_message (\<lambda>d. d) (\<lambda>s. s) (Text ''M'') ''https://sp.example/acs?x=1'' []
       ''SAMLRequest'' =
     Inr ([(''Location'', ''https://sp.example/acs?x=1&SAMLRequest=M'')], [[]]) \<and>
   http_redirect_message (\<lambda>d. d) (\<lambda>s. s) (Text ''M'') ''https://sp.example/acs'' ''RS 1''
       ''SAMLRequest'' =
     Inr ([(''Location'', ''https://sp.example/acs?SAMLRequest=M&RelayState=RS+1'')], [[]]) \<and>
   http_redirect_message rev (\<lambda>s. s) (Text ''M'') ''https://sp.example/acs'' ''RS 1''
       ''SAMLart'' =
     Inr ([(''Location'', ''https://sp.example/acs?RelayState=RS+1&SAMLart=M'')], [[]])"
  using redirect_query_join [of "''SAMLRequest''" "''https://sp.example/acs?x=1''" "''x=1''"
      "\<lambda>d. d" "\<lambda>s. s" "Text ''M''" "[]"]
    redirect_query_join [of "''SAMLRequest''" "''https://sp.example/acs''" "[]"
      "\<lambda>d. d" "\<lambda>s. s" "Text ''M''" "''RS 1''"]
    redirect_query_join [of "''SAMLart''" "''https://sp.example/acs''" "[]"
      rev "\<lambda>s. s" "Text ''M''" "''RS 1''"]
    query_example query_example_none
  by (simp add: quote_plus_examples message_text_def redirect_args_cases urlencode_def)

section \<open>The SOAP decoder\<close>

text \<open>
  Claim C5.  When the parsed root element is not \<^verbatim>\<open>Envelope\<close> in the SOAP namespace,
  \<^verbatim>\<open>parse_soap_enveloped_saml\<close> returns no result: its \<^verbatim>\<open>assert\<close> on the root tag
  fails, which is the error the specification calls MalformedEnvelope.
\<close>

theorem soap_decode_rejects_root:
  assumes "fromstring text = Inr envelope"
    and "tag envelope \<noteq> clark NAMESPACE ''Envelope''"
  shows "parse_soap_enveloped_saml fromstring create text body_class header_class =
           Inl AssertionError"
  using assms by (simp add: parse_soap_enveloped_saml_def ebind_def)

theorem soap_decode_rejects_root_witness:
  "parse_soap_enveloped_saml (\<lambda>t. Inr (Element ''{urn:x}Envelope'' []))
       (\<lambda>k e. Inr (Some (0::nat))) ''<x/>'' \<lparr>c_namespace = ''urn:x'', c_tag = ''A''\<rparr> None =
     Inl AssertionError"
  using soap_decode_rejects_root [of "\<lambda>t. Inr (Element ''{urn:x}Envelope'' [])" "''<x/>''"
      "Element ''{urn:x}Envelope'' []" "\<lambda>k e. Inr (Some (0::nat))"
      "\<lparr>c_namespace = ''urn:x'', c_tag = ''A''\<rparr>" None]
  by (simp add: clark_def NAMESPACE_def)





section \<open>Cookie records\<close>

lemma lower_char_dot: "lower_char c = CHR ''.'' \<longleftrightarrow> c = CHR ''.''"
  by (simp add: lower_char_def)

lemma startswith_lower_dot: "startswith (lower d) ''.'' \<longleftrightarrow> startswith d ''.''"
  by (cases d) (simp_all add: startswith_def lower_def lower_char_dot)

lemma lower_empty: "lower d = [] \<longleftrightarrow> d = []"
  by (simp add: lower_def)

lemma copy_attributes_flags:
  "case copy_attributes m sa of Inl e \<Rightarrow> True | Inr sa' \<Rightarrow> same_flags sa sa'"
  by (auto simp: copy_attributes_def ebind_def Let_def same_flags_def split: sum.splits)

lemma copy_attributes_keeps:
  "copy_attributes m sa = Inr sa' \<Longrightarrow>
   sa_port sa' = sa_port sa \<and> sa_port_specified sa' = sa_port_specified sa \<and>
   sa_domain_specified sa' = sa_domain_specified sa \<and>
   sa_path_specified sa' = sa_path_specified sa \<and>
   sa_domain_initial_dot sa' = sa_domain_initial_dot sa \<and> sa_name sa' = sa_name sa"
  using copy_attributes_flags [where m = m and sa = sa] by (simp add: same_flags_def)

lemma standard_attributes_paired:
  assumes "standard_attributes n m = Inr sa"
  shows "sa_port sa = PyNone \<and> \<not> sa_port_specified sa \<and>
         (sa_domain_specified sa \<longleftrightarrow> sa_domain sa \<noteq> []) \<and>
         (sa_path_specified sa \<longleftrightarrow> sa_path sa \<noteq> []) \<and>
         (sa_domain_initial_dot sa \<longleftrightarrow> startswith (sa_domain sa) ''.'')"
proof -
  obtain sa0 sa1 where c: "copy_attributes m sa0 = Inr sa1"
    and sa0: "sa_port sa0 = PyNone" "\<not> sa_port_specified sa0" "\<not> sa_domain_specified sa0"
      "\<not> sa_path_specified sa0" "\<not> sa_domain_initial_dot sa0"
    and sa: "sa = set_initial_dot (set_pairs sa1)"
    using assms
    by (auto simp: standard_attributes_def ebind_def Let_def ATTRS_def split: sum.splits if_splits)
  from copy_attributes_keeps [OF c] sa0
  have "sa_port sa1 = PyNone" "\<not> sa_port_specified sa1" "\<not> sa_domain_specified sa1"
      "\<not> sa_path_specified sa1" "\<not> sa_domain_initial_dot sa1"
    by simp_all
  then show ?thesis
    unfolding sa by (auto simp: set_initial_dot_def set_pairs_def Let_def startswith_def)
qed

lemma Cookie_paired:
  assumes "standard_attributes n m = Inr sa" and "Cookie sa = Inr c"
  shows "pairing c"
proof -
  have c: "ck_port c = sa_port sa" "ck_port_specified c = sa_port_specified sa"
    "ck_domain c = lower (sa_domain sa)" "ck_domain_specified c = sa_domain_specified sa"
    "ck_domain_initial_dot c = sa_domain_initial_dot sa"
    "ck_path c = sa_path sa" "ck_path_specified c = sa_path_specified sa"
    using assms(2) by (auto simp: Cookie_def ebind_def split: sum.splits if_splits)
  show ?thesis
    using standard_attributes_paired [OF assms(1)]
    by (simp add: pairing_def c startswith_lower_dot lower_empty)
qed

lemma set_update_subset: "set (AList.update k v al) \<subseteq> insert (k, v) (set al)"
  by (induction al) auto

lemma set_delete_subset: "set (AList.delete k al) \<subseteq> set al"
  by (auto simp: AList.delete_eq)

lemma in_jar_cookies:
  "c \<in> set (jar_cookies j) \<longleftrightarrow>
     (\<exists>d c2 p c3 n. (d, c2) \<in> set j \<and> (p, c3) \<in> set c2 \<and> (n, c) \<in> set c3)"
proof
  assume "c \<in> set (jar_cookies j)"
  then show "\<exists>d c2 p c3 n. (d, c2) \<in> set j \<and> (p, c3) \<in> set c2 \<and> (n, c) \<in> set c3"
    by (fastforce simp: jar_cookies_def)
next
  assume "\<exists>d c2 p c3 n. (d, c2) \<in> set j \<and> (p, c3) \<in> set c2 \<and> (n, c) \<in> set c3"
  then obtain d c2 p c3 n where
    d: "(d, c2) \<in> set j" and p: "(p, c3) \<in> set c2" and n: "(n, c) \<in> set c3"
    by blast
  from n have "c \<in> set (map snd c3)" by force
  with p have "c \<in> set (concat (map (\<lambda>(p, c3). map snd c3) c2))" by force
  with d show "c \<in> set (jar_cookies j)" by (force simp: jar_cookies_def)
qed

lemma jar_cookiesI:
  "(d, c2) \<in> set j \<Longrightarrow> (p, c3) \<in> set c2 \<Longrightarrow> (n, c) \<in> set c3 \<Longrightarrow> c \<in> set (jar_cookies j)"
  unfolding in_jar_cookies by blast

lemma jar_cookies_set_cookie:
  "set (jar_cookies (jar_set_cookie j c)) \<subseteq> insert c (set (jar_cookies j))"
proof
  fix x assume "x \<in> set (jar_cookies (jar_set_cookie j c))"
  then obtain d c2 p c3 n where
    d: "(d, c2) \<in> set (jar_set_cookie j c)" and p: "(p, c3) \<in> set c2" and n: "(n, x) \<in> set c3"
    unfolding in_jar_cookies by blast
  define o2 where "o2 = (case map_of j (ck_domain c) of None \<Rightarrow> [] | Some x \<Rightarrow> x)"
  define o3 where "o3 = (case map_of o2 (ck_path c) of None \<Rightarrow> [] | Some x \<Rightarrow> x)"
  have o2: "(p', c3') \<in> set o2 \<Longrightarrow> (ck_domain c, o2) \<in> set j" for p' c3'
    by (auto simp: o2_def split: option.splits dest: map_of_SomeD)
  have o3: "(n', x') \<in> set o3 \<Longrightarrow> (ck_path c, o3) \<in> set o2" for n' x'
    by (auto simp: o3_def split: option.splits dest: map_of_SomeD)
  have js: "jar_set_cookie j c =
      AList.update (ck_domain c) (AList.update (ck_path c) (AList.update (ck_name c) c o3) o2) j"
    by (simp add: jar_set_cookie_def Let_def o2_def o3_def)
  from d js have "(d, c2) \<in> set j \<or>
      c2 = AList.update (ck_path c) (AList.update (ck_name c) c o3) o2"
    using set_update_subset by fastforce
  then show "x \<in> insert c (set (jar_cookies j))"
  proof
    assume "(d, c2) \<in> set j"
    with p n show ?thesis by (blast intro: jar_cookiesI)
  next
    assume "c2 = AList.update (ck_path c) (AList.update (ck_name c) c o3) o2"
    with p have "(p, c3) \<in> set o2 \<or> c3 = AList.update (ck_name c) c o3"
      using set_update_subset by fastforce
    then show ?thesis
    proof
      assume a: "(p, c3) \<in> set o2"
      with o2 have "(ck_domain c, o2) \<in> set j" by blast
      with a n show ?thesis by (blast intro: jar_cookiesI)
    next
      assume "c3 = AList.update (ck_name c) c o3"
      with n have "(n, x) \<in> set o3 \<or> x = c"
        using set_update_subset by fastforce
      then show ?thesis
      proof
        assume a: "(n, x) \<in> set o3"
        with o3 have b: "(ck_path c, o3) \<in> set o2" by blast
        with o2 have "(ck_domain c, o2) \<in> set j" by blast
        with a b show ?thesis by (blast intro: jar_cookiesI)
      qed simp
    qed
  qed
qed

lemma jar_cookies_clear:
  assumes "jar_clear j d p n = Inr j'"
  shows "set (jar_cookies j') \<subseteq> set (jar_cookies j)"
proof
  fix x assume x: "x \<in> set (jar_cookies j')"
  from assms obtain c2 c3 where
    c2: "map_of j d = Some c2" and c3: "map_of c2 p = Some c3"
    and j': "j' = AList.update d (AList.update p (AList.delete n c3) c2) j"
    by (auto simp: jar_clear_def split: option.splits)
  have m2: "(d, c2) \<in> set j" using c2 by (rule map_of_SomeD)
  have m3: "(p, c3) \<in> set c2" using c3 by (rule map_of_SomeD)
  from x obtain d' e2 p' e3 n' where
    d: "(d', e2) \<in> set j'" and p: "(p', e3) \<in> set e2" and n: "(n', x) \<in> set e3"
    unfolding in_jar_cookies by blast
  from d j' have "(d', e2) \<in> set j \<or> e2 = AList.update p (AList.delete n c3) c2"
    using set_update_subset by fastforce
  then show "x \<in> set (jar_cookies j)"
  proof
    assume "(d', e2) \<in> set j"
    with p n show ?thesis by (blast intro: jar_cookiesI)
  next
    assume "e2 = AList.update p (AList.delete n c3) c2"
    with p have "(p', e3) \<in> set c2 \<or> e3 = AList.delete n c3"
      using set_update_subset by fastforce
    then show ?thesis
    proof
      assume "(p', e3) \<in> set c2"
      with m2 n show ?thesis by (blast intro: jar_cookiesI)
    next
      assume "e3 = AList.delete n c3"
      with n have "(n', x) \<in> set c3" using set_delete_subset by fastforce
      with m2 m3 show ?thesis by (blast intro: jar_cookiesI)
    qed
  qed
qed

lemma set_one_cookie_pairing:
  assumes "set_one_cookie j km = Inr j'" and "\<forall>c \<in> set (jar_cookies j). pairing c"
  shows "\<forall>c \<in> set (jar_cookies j'). pairing c"
proof -
  obtain n m where km: "km = (n, m)" by (cases km)
  from assms(1) obtain sa where sa: "standard_attributes n m = Inr sa"
    by (auto simp: set_one_cookie_def km ebind_def split: sum.splits)
  show ?thesis
  proof (cases "m_max_age m = PyInt 0")
    case True
    with assms(1) sa have "j' = j \<or> jar_clear j (sa_domain sa) (sa_path sa) (sa_name sa) = Inr j'"
      by (auto simp: set_one_cookie_def km ebind_def split: sum.splits error.splits)
    then show ?thesis using assms(2) jar_cookies_clear by blast
  next
    case False
    with assms(1) sa obtain c where c: "Cookie sa = Inr c" and j': "j' = jar_set_cookie j c"
      by (auto simp: set_one_cookie_def km ebind_def split: sum.splits)
    have "pairing c" using Cookie_paired [OF sa c] .
    then show ?thesis using assms(2) jar_cookies_set_cookie [of j c] j' by auto
  qed
qed

lemma dot_cookie_flags:
  "map (\<lambda>c. (ck_domain c, ck_domain_specified c, ck_domain_initial_dot c))
       (jar_cookies (snd (set_cookie dot_cookie []))) = [(''.example.com'', True, True)]"
  by code_simp

text \<open>
  Claim C8.  \<^verbatim>\<open>set_cookie\<close> keeps the pairing invariant of the jar: if every cookie of
  the jar has \<open>domain_specified\<close> exactly when its domain is not empty,
  \<open>path_specified\<close> exactly when its path is not empty, \<open>port_specified\<close> exactly
  when its port is truthy and \<open>domain_initial_dot\<close> exactly when its domain starts
  with a dot, then so has every cookie of the jar after the call, whether the call
  returns or raises.  So every record that \<^verbatim>\<open>set_cookie\<close> puts into a jar is paired.
\<close>

theorem set_cookie_pairing:
  "\<forall>c \<in> set (jar_cookies j). pairing c \<Longrightarrow>
   \<forall>c \<in> set (jar_cookies (snd (set_cookie kaka j))). pairing c"
proof (induction kaka arbitrary: j)
  case Nil
  then show ?case by simp
next
  case (Cons km kaka)
  show ?case
  proof (cases "set_one_cookie j km")
    case (Inl e)
    then show ?thesis using Cons.prems by simp
  next
    case (Inr j')
    then have "\<forall>c \<in> set (jar_cookies j'). pairing c"
      using set_one_cookie_pairing Cons.prems by blast
    then show ?thesis using Cons.IH Inr by simp
  qed
qed

theorem set_cookie_pairing_witness:
  "list_all pairing (jar_cookies []) \<and>
   list_all pairing (jar_cookies (snd (set_cookie dot_cookie []))) \<and>
   map (\<lambda>c. (ck_domain c, ck_domain_specified c, ck_domain_initial_dot c))
       (jar_cookies (snd (set_cookie dot_cookie []))) = [(''.example.com'', True, True)]"
  using set_cookie_pairing [of "[]" dot_cookie] dot_cookie_flags
  by (simp add: jar_cookies_def list_all_iff)

section \<open>Cookie removal and malformed dates\<close>

text \<open>
  Claim C2 says that removing a cookie that the jar does not hold is ignored.  The code
  catches ValueError around \<^verbatim>\<open>cookiejar.clear\<close>, but \<^verbatim>\<open>clear\<close> raises KeyError for a
  missing key: a cookie with max-age \<open>0\<close> makes \<^verbatim>\<open>set_cookie\<close> raise on an empty jar.
\<close>

theorem zero_max_age_absent_key_raises:
  "set_cookie zero_max_age [] = (Inl KeyError, [])"
  by code_simp

text \<open>
  A max-age of zero as it comes off the wire is the string \<^verbatim>\<open>"0"\<close>, which is truthy and
  is handed to \<^verbatim>\<open>_since_epoch\<close> as if it were a date.
\<close>

lemma wire_zero_max_age_raises:
  "set_cookie wire_zero_max_age [] = (Inl ValueError, [])"
  by code_simp

text \<open>When the jar holds the key, the cookie with max-age \<open>0\<close> removes it.\<close>

lemma standard_attributes_name:
  "standard_attributes n m = Inr sa \<Longrightarrow> sa_name sa = n"
proof -
  assume a: "standard_attributes n m = Inr sa"
  then obtain sa0 sa1 where c: "copy_attributes m sa0 = Inr sa1" and n0: "sa_name sa0 = n"
    and sa: "sa = set_initial_dot (set_pairs sa1)"
    by (auto simp: standard_attributes_def ebind_def Let_def split: sum.splits if_splits)
  from copy_attributes_keeps [OF c] n0 have "sa_name sa1 = n" by simp
  then show ?thesis
    unfolding sa by (simp add: set_initial_dot_def set_pairs_def Let_def)
qed

lemma jar_clear_present:
  assumes "jar_lookup j d p n = Some c"
  shows "\<exists>j'. jar_clear j d p n = Inr j' \<and> jar_lookup j' d p n = None"
  using assms
  by (auto simp: jar_lookup_def jar_clear_def update_conv' delete_conv' split: option.splits)

lemma zero_max_age_removes_present:
  assumes "m_max_age m = PyInt 0" and "standard_attributes n m = Inr sa"
    and "jar_lookup j (sa_domain sa) (sa_path sa) n = Some c"
  shows "\<exists>j'. set_one_cookie j (n, m) = Inr j' \<and>
              jar_lookup j' (sa_domain sa) (sa_path sa) n = None"
  using assms jar_clear_present [OF assms(3)] standard_attributes_name [OF assms(2)]
  by (auto simp: set_one_cookie_def ebind_def)

text \<open>
  The jar files a cookie under its domain in lower case, and the removal looks it up
  under the domain as the morsel spells it.
\<close>

lemma zero_max_age_mixed_case_domain_raises:
  "fst (set_cookie mixed_case_cookie []) = Inr () \<and>
   jar_lookup (snd (set_cookie mixed_case_cookie [])) ''example.com'' [] ''sid'' \<noteq> None \<and>
   set_cookie mixed_case_removal (snd (set_cookie mixed_case_cookie [])) =
     (Inl KeyError, snd (set_cookie mixed_case_cookie []))"
  by code_simp

lemma set_cookie_append:
  "set_cookie pre j = (Inr (), j') \<Longrightarrow> set_cookie (pre @ rest) j = set_cookie rest j'"
  by (induction pre arbitrary: j) (auto split: sum.splits)

lemma malformed_expiry_one:
  assumes "m_expires m = PyStr e" and "e \<noteq> []" and "since_epoch (PyStr e) = Inl ValueError"
  shows "set_one_cookie j (n, m) = Inl ValueError"
  using assms
  by (simp add: set_one_cookie_def standard_attributes_def copy_attributes_def ebind_def Let_def)

lemma good_first: "set_cookie [(''b'', good_morsel)] [] =
    (Inr (), snd (set_cookie [(''b'', good_morsel)] []))"
  by code_simp

lemma bad_date: "since_epoch (PyStr ''next tuesday'') = Inl ValueError"
  by code_simp

text \<open>
  Claim C3 says that a cookie with a malformed expiry is dropped alone and that the call
  does not raise.  Nothing in \<^verbatim>\<open>set_cookie\<close> catches the ValueError of
  \<^verbatim>\<open>_since_epoch\<close>: of the batch of a malformed cookie \<open>a\<close> and a well-formed cookie
  \<open>b\<close> nothing reaches the jar and the call raises, although \<open>b\<close> alone is ingested.
\<close>

theorem malformed_expiry_not_confined:
  "set_cookie bad_batch [] = (Inl ValueError, []) \<and>
   fst (set_cookie [(''b'', good_morsel)] []) = Inr () \<and>
   jar_lookup (snd (set_cookie [(''b'', good_morsel)] [])) [] [] ''b'' \<noteq> None \<and>
   jar_lookup (snd (set_cookie bad_batch [])) [] [] ''b'' = None"
  by code_simp

text \<open>
  Claim C3, amended.  A cookie whose expiry string \<^verbatim>\<open>_since_epoch\<close> rejects ends the
  call: \<^verbatim>\<open>set_cookie\<close> raises ValueError, the jar holds what the cookies before it
  in the batch put there, and neither that cookie nor the cookies after it are ingested.
\<close>

theorem malformed_expiry_aborts_batch:
  assumes "set_cookie pre j = (Inr (), j')"
    and "m_expires m = PyStr e" and "e \<noteq> []" and "since_epoch (PyStr e) = Inl ValueError"
  shows "set_cookie (pre @ (n, m) # post) j = (Inl ValueError, j')"
  using set_cookie_append [OF assms(1)] malformed_expiry_one [OF assms(2-4)] by simp

theorem malformed_expiry_aborts_batch_witness:
  "set_cookie ([(''b'', good_morsel)] @ (''a'', bad_morsel) # [(''c'', good_morsel)]) [] =
     (Inl ValueError, snd (set_cookie [(''b'', good_morsel)] []))"
  using malformed_expiry_aborts_batch [of "[(''b'', good_morsel)]" "[]"
      "snd (set_cookie [(''b'', good_morsel)] [])" bad_morsel "''next tuesday''" "''a''"
      "[(''c'', good_morsel)]"] good_first bad_date
  by (simp add: bad_morsel_def empty_morsel_def)

section \<open>Transport\<close>

lemma dot_cookie_ingested:
  "set_cookie dot_cookie [] = (Inr (), snd (set_cookie dot_cookie [])) \<and>
   jar_lookup (snd (set_cookie dot_cookie [])) ''.example.com'' [] ''sid'' \<noteq> None"
  by code_simp

text \<open>
  What \<^verbatim>\<open>send\<close> does after a successful HTTP call when the lookup of the header
  yields \<^verbatim>\<open>None\<close>, and when the header is there and \<^verbatim>\<open>set_cookie\<close> returns.
\<close>

theorem send_set_cookie_header:
  assumes "request method url (send_kwargs self kwargs) = Inr r"
  shows "(resp_headers r ''set-cookie'' = Inr None \<longrightarrow>
            send request load self url method kwargs = (Inr r, self)) \<and>
         (\<forall>h kaka j. resp_headers r ''set-cookie'' = Inr (Some h) \<and>
              SimpleCookie load (Some h) = Inr kaka \<and>
              set_cookie kaka (cookiejar self) = (Inr (), j) \<longrightarrow>
            send request load self url method kwargs = (Inr r, self\<lparr>cookiejar := j\<rparr>))"
  using assms by (auto simp: send_def ebind_def SimpleCookie_def)

theorem send_set_cookie_header_witness:
  "send (\<lambda>m u k. Inr bare_response) (\<lambda>s. Inr []) (init_httpbase True None None None)
      ''https://idp.example/sso'' ''GET'' [] =
     (Inr bare_response, init_httpbase True None None None) \<and>
   send (\<lambda>m u k. Inr cookie_response) (\<lambda>s. Inr dot_cookie) (init_httpbase True None None None)
      ''https://idp.example/sso'' ''GET'' [] =
     (Inr cookie_response,
      (init_httpbase True None None None)\<lparr>cookiejar := snd (set_cookie dot_cookie [])\<rparr>) \<and>
   jar_lookup (snd (set_cookie dot_cookie [])) ''.example.com'' [] ''sid'' \<noteq> None"
proof -
  have c: "cookiejar (init_httpbase True None None None) = []"
    by (simp add: init_httpbase_def)
  show ?thesis
    using send_set_cookie_header [of "\<lambda>m u k. Inr bare_response" "''GET''"
        "''https://idp.example/sso''" "init_httpbase True None None None" "[]" bare_response
        "\<lambda>s. Inr []"]
      send_set_cookie_header [of "\<lambda>m u k. Inr cookie_response" "''GET''"
        "''https://idp.example/sso''" "init_httpbase True None None None" "[]" cookie_response
        "\<lambda>s. Inr dot_cookie"]
      dot_cookie_ingested
    by (simp add: bare_response_def cookie_response_def SimpleCookie_def c)
qed

lemma send_missing_header_KeyError:
  assumes "request method url (send_kwargs self kwargs) = Inr r"
    and "resp_headers r ''set-cookie'' = Inl KeyError"
  shows "send request load self url method kwargs = (Inl KeyError, self)"
  using assms by (simp add: send_def ebind_def)

lemma max_age_cookie_raises: "set_cookie max_age_cookie [] = (Inl ValueError, [])"
  by code_simp

text \<open>
  Claim C9 says that \<^verbatim>\<open>send\<close> ingests the cookies of a \<^verbatim>\<open>Set-Cookie\<close> header and
  that a missing header is no error.  \<^verbatim>\<open>set_cookie\<close> hands the \<^verbatim>\<open>Max-Age\<close> of a cookie
  to \<^verbatim>\<open>_since_epoch\<close> as if it were a date, and \<^verbatim>\<open>send\<close> catches AttributeError
  only: the header \<^verbatim>\<open>sid=abc; Max-Age=3600\<close> makes \<^verbatim>\<open>send\<close> raise ValueError with
  nothing ingested, and a header mapping that raises KeyError for the missing header
  makes it raise KeyError.
\<close>

theorem send_max_age_cookie_raises:
  "send (\<lambda>m u k. Inr max_age_response) max_age_load (init_httpbase True None None None)
      ''https://idp.example/sso'' ''GET'' [] =
     (Inl ValueError, init_httpbase True None None None) \<and>
   send (\<lambda>m u k. Inr dict_response) max_age_load (init_httpbase True None None None)
      ''https://idp.example/sso'' ''GET'' [] =
     (Inl KeyError, init_httpbase True None None None)"
proof -
  have c: "cookiejar (init_httpbase True None None None) = []"
    by (simp add: init_httpbase_def)
  have r: "(init_httpbase True None None None)\<lparr>cookiejar := []\<rparr> =
      init_httpbase True None None None"
    by (simp add: init_httpbase_def)
  show ?thesis
    by (simp add: send_def ebind_def SimpleCookie_def max_age_response_def max_age_load_def
        dict_response_def c r max_age_cookie_raises)
qed

text \<open>Dates that \<^verbatim>\<open>_since_epoch\<close> accepts and rejects.\<close>

lemma date_forms_agree:
  "since_epoch (PyStr ''Wed, 06-Jun-2012 01:34:34 GMT'') = Inr 1338946474 \<and>
   since_epoch (PyStr ''Wed, 06-Jun-12 01:34:34 GMT'') = Inr 1338946474"
  by code_simp

lemma rfc1123_expires_rejected:
  "since_epoch (PyStr ''Wed, 06 Jun 2012 01:34:34 GMT'') = Inl ValueError"
  by code_simp

lemma early_year_rejected:
  "since_epoch (PyStr ''Wed, 06-Jun-1850 01:34:34 GMT'') = Inl ValueError"
  by code_simp

lemma soap_message_a:
  "ebind (make_soap_enveloped_saml_thingy (Text ''<a/>'') None)
     (sign_message (init_httpbase True None None None) (Text ''<a/>'') False) =
   Inr (envelope_open @ ''<a/>'' @ envelope_close)"
proof -
  have "replace ''<a/>'' PREFIX [] = ''<a/>''" by code_simp
  then show ?thesis
    by (simp add: splice_placeholder ebind_def sign_message_def init_httpbase_def)
qed

text \<open>
  Claim C4.  Once the envelope is built (and signed, if asked), \<^verbatim>\<open>send_using_soap\<close>
  returns \<^verbatim>\<open>None\<close> whenever \<^verbatim>\<open>send\<close> raises, whatever the exception; it returns
  \<^verbatim>\<open>False\<close> when \<^verbatim>\<open>send\<close> returns a falsy response; and it returns the parsed
  result for a truthy one.  The three results are different values.
\<close>

theorem send_using_soap_no_response:
  assumes "ebind (make_soap_enveloped_saml_thingy req None) (sign_message self req sign) =
             Inr soap_message"
    and "kw = [(''data'', KStr soap_message),
               (''headers'', KDict (case headers of
                   None \<Rightarrow> [(''content-type'', ''application/soap+xml'')]
                 | Some h \<Rightarrow> AList.update ''content-type'' ''application/soap+xml'' h))]"
  shows "(\<forall>exc self'. send request load self destination ''POST'' kw = (Inl exc, self') \<longrightarrow>
            send_using_soap request load parse self req destination headers sign =
              (Inr ResultNone, self')) \<and>
         (\<forall>r self'. send request load self destination ''POST'' kw = (Inr r, self') \<and>
              \<not> resp_ok r \<longrightarrow>
            send_using_soap request load parse self req destination headers sign =
              (Inr ResultFalse, self')) \<and>
         (\<forall>r self' p. send request load self destination ''POST'' kw = (Inr r, self') \<and>
              resp_ok r \<and> parse r = Inr p \<longrightarrow>
            send_using_soap request load parse self req destination headers sign =
              (Inr (Parsed p), self') \<and> Parsed p \<noteq> ResultFalse \<and> Parsed p \<noteq> ResultNone) \<and>
         (ResultFalse :: 'r soap_result) \<noteq> ResultNone"
  using assms by (auto simp: send_using_soap_def ebind_def Let_def)

theorem send_using_soap_no_response_witness:
  "send_using_soap (\<lambda>m u k. Inl RequestsConnectionError) (\<lambda>s. Inr []) (\<lambda>r. Inr (resp_text r))
      (init_httpbase True None None None) (Text ''<a/>'') ''https://idp.example/soap'' None False =
     (Inr ResultNone, init_httpbase True None None None) \<and>
   send_using_soap (\<lambda>m u k. Inr refused_response) (\<lambda>s. Inr []) (\<lambda>r. Inr (resp_text r))
      (init_httpbase True None None None) (Text ''<a/>'') ''https://idp.example/soap'' None False =
     (Inr ResultFalse, init_httpbase True None None None)"
proof -
  let ?self = "init_httpbase True None None None"
  let ?kw = "[(''data'', KStr (envelope_open @ ''<a/>'' @ envelope_close)),
              (''headers'', KDict [(''content-type'', ''application/soap+xml'')])]"
  have kw: "?kw = [(''data'', KStr (envelope_open @ ''<a/>'' @ envelope_close)),
               (''headers'', KDict (case None of
                   None \<Rightarrow> [(''content-type'', ''application/soap+xml'')]
                 | Some h \<Rightarrow> AList.update ''content-type'' ''application/soap+xml'' h))]"
    by simp
  have s1: "send (\<lambda>m u k. Inl RequestsConnectionError) (\<lambda>s. Inr []) ?self
      ''https://idp.example/soap'' ''POST'' ?kw = (Inl ConnectionError, ?self)"
    by (simp add: send_def)
  have s2: "send (\<lambda>m u k. Inr refused_response) (\<lambda>s. Inr []) ?self
      ''https://idp.example/soap'' ''POST'' ?kw = (Inr refused_response, ?self)"
    by (simp add: send_def refused_response_def ebind_def SimpleCookie_def init_httpbase_def)
  have r: "\<not> resp_ok refused_response" by (simp add: refused_response_def)
  show ?thesis
    using send_using_soap_no_response [OF soap_message_a kw,
        of "\<lambda>m u k. Inl RequestsConnectionError" "\<lambda>s. Inr []" "''https://idp.example/soap''"
           "\<lambda>r. Inr (resp_text r)"]
      send_using_soap_no_response [OF soap_message_a kw,
        of "\<lambda>m u k. Inr refused_response" "\<lambda>s. Inr []" "''https://idp.example/soap''"
           "\<lambda>r. Inr (resp_text r)"]
      s1 s2 r
    by blast
qed

end
